theory Spec2Isabelle
  imports Main "HOL-Library.Sublist"
begin

section \<open>Strings as the source uses them\<close>

text \<open>
  Python strings are modelled as \<^typ>\<open>string\<close>; every character is one code point
  below 256.  The operations below are the string methods the review tool calls.
\<close>

text \<open>\<^verbatim>\<open>needle in hay\<close> on strings: \<open>needle\<close> occurs as a contiguous substring.\<close>

fun contains :: "string \<Rightarrow> string \<Rightarrow> bool" where
  "contains needle [] = (needle = [])"
| "contains needle (c # cs) = (prefix needle (c # cs) \<or> contains needle cs)"

text \<open>\<^verbatim>\<open>s.split('\n')\<close>: the pieces between separators; never the empty list.\<close>

fun split_on :: "char \<Rightarrow> string \<Rightarrow> string list" where
  "split_on sep [] = [[]]"
| "split_on sep (c # cs) =
     (if c = sep then [] # split_on sep cs
      else (case split_on sep cs of
              [] \<Rightarrow> [[c]]
            | p # ps \<Rightarrow> (c # p) # ps))"

text \<open>The characters \<^verbatim>\<open>str.strip()\<close> removes, among the code points below 256.\<close>

definition is_space :: "char \<Rightarrow> bool" where
  "is_space c \<longleftrightarrow>
     of_char c \<in> {9, 10, 11, 12, 13, 28, 29, 30, 31, 32, 133, 160 :: nat}"

definition strip :: "string \<Rightarrow> string" where
  "strip s = rev (dropWhile is_space (rev (dropWhile is_space s)))"

text \<open>
  \<^verbatim>\<open>str.lower()\<close> on code points below 256: the letters A to Z and the capital
  letters from 192 to 222 (the multiplication sign 215 apart) move up by 32, every
  other character is kept.
\<close>

definition lower_char :: "char \<Rightarrow> char" where
  "lower_char c =
     (let n = (of_char c :: nat)
      in if (65 \<le> n \<and> n \<le> 90) \<or> (192 \<le> n \<and> n \<le> 222 \<and> n \<noteq> 215)
         then char_of (n + 32) else c)"

definition lower :: "string \<Rightarrow> string" where
  "lower s = map lower_char s"

text \<open>\<^verbatim>\<open>"\n".join(xs)\<close> and friends.\<close>

fun join :: "string \<Rightarrow> string list \<Rightarrow> string" where
  "join sep [] = []"
| "join sep [x] = x"
| "join sep (x # y # ys) = x @ sep @ join sep (y # ys)"

text \<open>\<^verbatim>\<open>enumerate(xs, 1)\<close>.\<close>

definition enumerate1 :: "'a list \<Rightarrow> (int \<times> 'a) list" where
  "enumerate1 xs = zip (map int [1 ..< Suc (length xs)]) xs"

text \<open>\<^verbatim>\<open>str(n)\<close> for an integer, as the f-strings print it.\<close>

function str_nat :: "nat \<Rightarrow> string" where
  "str_nat n =
     (if n < 10 then [''0123456789'' ! n]
      else str_nat (n div 10) @ [''0123456789'' ! (n mod 10)])"
  by pat_completeness auto
termination
  by (relation "measure id") auto

declare str_nat.simps [simp del]

definition str_int :: "int \<Rightarrow> string" where
  "str_int i = (if i < 0 then CHR ''-'' # str_nat (nat (- i)) else str_nat (nat i))"

section \<open>Data model\<close>

text \<open>The dataclass \<^verbatim>\<open>Issue\<close>; severity and category are plain strings in the source.\<close>

record Issue =
  severity :: string
  category :: string
  file_path :: string
  line_number :: "int option"
  description :: string
  recommendation :: "string option"
  code_snippet :: "string option"

text \<open>
  A Python \<^verbatim>\<open>dict\<close> from strings to counts, kept as an association list in insertion
  order with one entry per key.
\<close>

type_synonym counts = "(string \<times> int) list"

text \<open>The dataclass \<^verbatim>\<open>ReviewResult\<close>.\<close>

record ReviewResult =
  application_name :: string
  total_issues :: int
  issues_by_severity :: counts
  issues_by_category :: counts
  issues :: "Issue list"
  summary :: string
  recommendations :: "string list"

text \<open>\<^verbatim>\<open>d[k] += 1\<close> on a \<^verbatim>\<open>defaultdict(int)\<close>.\<close>

fun incr :: "string \<Rightarrow> counts \<Rightarrow> counts" where
  "incr k [] = [(k, 1)]"
| "incr k ((k', v) # d) = (if k = k' then (k', v + 1) # d else (k', v) # incr k d)"

text \<open>\<^verbatim>\<open>d.get(k, default)\<close>.\<close>

definition dict_get :: "counts \<Rightarrow> string \<Rightarrow> int \<Rightarrow> int" where
  "dict_get d k dflt = (case map_of d k of None \<Rightarrow> dflt | Some v \<Rightarrow> v)"

text \<open>The two counting loops of \<^verbatim>\<open>_generate_result\<close>.\<close>

definition count_by :: "(Issue \<Rightarrow> string) \<Rightarrow> Issue list \<Rightarrow> counts" where
  "count_by key xs = foldl (\<lambda>d i. incr (key i) d) [] xs"

section \<open>The aggregator: \<^verbatim>\<open>_generate_result\<close>\<close>

definition generate_summary :: "counts \<Rightarrow> Issue list \<Rightarrow> string" where
  "generate_summary by_sev xs =
     (let critical_count = dict_get by_sev ''CRITICAL'' 0;
          high_count = dict_get by_sev ''HIGH'' 0
      in if critical_count > 0 then
           ''CRITICAL: '' @ str_int critical_count
             @ '' critical issues found. Immediate attention required.''
         else if high_count > 0 then
           ''WARNING: '' @ str_int high_count @ '' high-priority issues found.''
         else if length xs > 0 then
           ''Found '' @ str_int (int (length xs))
             @ '' issues, mostly code quality improvements.''
         else ''No issues found. Application looks good!'')"

definition generate_recommendations :: "counts \<Rightarrow> counts \<Rightarrow> string list" where
  "generate_recommendations by_sev by_cat =
     (if dict_get by_sev ''CRITICAL'' 0 > 0
      then [''Fix all CRITICAL issues before deployment''] else [])
     @ (if dict_get by_cat ''TESTING'' 0 > 0 then [''Improve test coverage''] else [])
     @ (if dict_get by_cat ''DOCUMENTATION'' 0 > 0
        then [''Add missing documentation''] else [])"

definition generate_result :: "string \<Rightarrow> Issue list \<Rightarrow> ReviewResult" where
  "generate_result name xs =
     (let by_sev = count_by severity xs;
          by_cat = count_by category xs
      in \<lparr> application_name = name,
           total_issues = int (length xs),
           issues_by_severity = by_sev,
           issues_by_category = by_cat,
           issues = xs,
           summary = generate_summary by_sev xs,
           recommendations = generate_recommendations by_sev by_cat \<rparr>)"

section \<open>The world a review run reads\<close>

text \<open>
  What lies at a path: a file, whose text is \<open>None\<close> when opening or decoding it
  as UTF-8 raises, or a directory with its entries in the order the operating system
  lists them.
\<close>

datatype node = File "string option" | Dir "(string \<times> node) list"

text \<open>
  What the checks read of a syntax tree: the nodes in the order \<^verbatim>\<open>ast.walk\<close> yields
  them.  \<open>ExceptHandler t l\<close> has \<open>t\<close> true when \<^verbatim>\<open>node.type is None\<close>;
  \<open>FunctionDef name anns ret l doc\<close> holds, for each of \<^verbatim>\<open>node.args.args\<close>, whether
  its annotation is present, whether \<^verbatim>\<open>node.returns\<close> is present, and
  \<^verbatim>\<open>ast.get_docstring(node)\<close>.
\<close>

datatype ast_node =
    ExceptHandler bool int
  | FunctionDef string "bool list" bool int "string option"
  | OtherNode

record py_module =
  module_docstring :: "string option"
  walk :: "ast_node list"

datatype json = JNull | JInt int | JStr string | JList "json list" | JObj "(string \<times> json) list"

text \<open>
  The surroundings of one run.  \<open>root_str\<close> is \<^verbatim>\<open>str(self.app_path)\<close>, \<open>root_name\<close> is
  \<^verbatim>\<open>self.app_path.name\<close>, \<open>root\<close> is what the file system holds there (\<open>None\<close> when
  the path does not exist).  \<^verbatim>\<open>Path.exists\<close> returns false when the system call fails
  with ENOENT, ENOTDIR, EBADF or ELOOP and raises the \<^verbatim>\<open>OSError\<close> of every other failure
  (a name that is too long, a directory that may not be searched): \<open>root_stat_error\<close>
  says that the call on the root path fails in this second way, \<open>child_stat_error name\<close>
  that the call on the entry \<open>name\<close> below the root does.  \<open>ast_parse\<close> is
  \<^verbatim>\<open>ast.parse\<close>, \<open>None\<close> when it raises.  \<open>hailo_importable\<close> and
  \<open>hailo_apps_importable\<close> say whether the two import statements succeed; when they
  do not they raise \<^verbatim>\<open>ImportError\<close>.  \<open>json_dumps\<close> is \<^verbatim>\<open>json.dumps(_, indent=2)\<close>.
\<close>

datatype exn = OSError

record world =
  root_str :: string
  root_name :: string
  root :: "node option"
  root_stat_error :: bool
  child_stat_error :: "string \<Rightarrow> bool"
  ast_parse :: "string \<Rightarrow> py_module option"
  hailo_importable :: bool
  hailo_apps_importable :: bool
  json_dumps :: "json \<Rightarrow> string"

text \<open>A path below the root, as its components.\<close>

type_synonym path = "string list"

text \<open>\<^verbatim>\<open>str(py_file.relative_to(self.app_path))\<close>.\<close>

definition rel_str :: "path \<Rightarrow> string" where
  "rel_str p = join ''/'' p"

text \<open>\<^verbatim>\<open>str(py_file)\<close> for a path that globbing below the root returned.\<close>

definition full_str :: "world \<Rightarrow> path \<Rightarrow> string" where
  "full_str w p =
     (if root_str w = ''.'' then rel_str p
      else if suffix ''/'' (root_str w) then root_str w @ rel_str p
      else root_str w @ ''/'' @ rel_str p)"

fun lookup :: "path \<Rightarrow> node \<Rightarrow> node option" where
  "lookup [] n = Some n"
| "lookup (c # cs) n =
     (case n of
        File _ \<Rightarrow> None
      | Dir es \<Rightarrow> (case map_of es c of None \<Rightarrow> None | Some x \<Rightarrow> lookup cs x))"

text \<open>
  A step that may raise returns \<open>Inl\<close> of the exception; \<open>and_then\<close> runs the next
  step on the value of one that returned, and passes an exception on.
\<close>

definition and_then :: "exn + 'a \<Rightarrow> ('a \<Rightarrow> exn + 'b) \<Rightarrow> exn + 'b" where
  "and_then m f = (case m of Inl e \<Rightarrow> Inl e | Inr x \<Rightarrow> f x)"

text \<open>\<^verbatim>\<open>self.app_path.exists()\<close>.\<close>

definition root_exists :: "world \<Rightarrow> exn + bool" where
  "root_exists w = (if root_stat_error w then Inl OSError else Inr (root w \<noteq> None))"

text \<open>\<^verbatim>\<open>(self.app_path / name).exists()\<close>.\<close>

definition child_exists :: "world \<Rightarrow> string \<Rightarrow> exn + bool" where
  "child_exists w name =
     (if child_stat_error w name then Inl OSError
      else Inr (case root w of
                  None \<Rightarrow> False
                | Some t \<Rightarrow> lookup [name] t \<noteq> None))"

text \<open>
  \<^verbatim>\<open>with open(py_file, 'r', encoding='utf-8') as f: content = f.read()\<close>;
  \<open>None\<close> when it raises (the path is a directory, or the file cannot be read or decoded).
\<close>

definition read_file :: "world \<Rightarrow> path \<Rightarrow> string option" where
  "read_file w p =
     (case root w of
        None \<Rightarrow> None
      | Some t \<Rightarrow>
          (case lookup p t of
             Some (File (Some content)) \<Rightarrow> Some content
           | _ \<Rightarrow> None))"

text \<open>
  \<^verbatim>\<open>Path.rglob\<close> with a pattern on the last component: the matching entries of a
  directory, then those of each subdirectory in turn.
\<close>

fun rglob :: "(string \<Rightarrow> bool) \<Rightarrow> path \<Rightarrow> node \<Rightarrow> path list" where
  "rglob m pre (File c) = []"
| "rglob m pre (Dir es) =
     map (\<lambda>e. pre @ [fst e]) (filter (\<lambda>e. m (fst e)) es)
     @ concat (map (\<lambda>e. rglob m (pre @ [fst e]) (snd e)) es)"

text \<open>\<^verbatim>\<open>Path.glob\<close> with a pattern on the name: the matching entries of one directory.\<close>

fun glob :: "(string \<Rightarrow> bool) \<Rightarrow> path \<Rightarrow> node \<Rightarrow> path list" where
  "glob m pre (File c) = []"
| "glob m pre (Dir es) = map (\<lambda>e. pre @ [fst e]) (filter (\<lambda>e. m (fst e)) es)"

text \<open>The pattern \<^verbatim>\<open>test_*.py\<close>.\<close>

definition test_pattern :: "string \<Rightarrow> bool" where
  "test_pattern name \<longleftrightarrow> prefix ''test_'' name \<and> suffix ''.py'' (drop 5 name)"

section \<open>The reviewer\<close>

record reviewer =
  self_issues :: "Issue list"
  python_files :: "path list"
  config_files :: "path list"

definition init_reviewer :: reviewer where
  "init_reviewer = \<lparr> self_issues = [], python_files = [], config_files = [] \<rparr>"

text \<open>The globbing of \<^verbatim>\<open>_discover_files\<close>, once the root is known to exist.\<close>

definition glob_files :: "world \<Rightarrow> reviewer \<Rightarrow> reviewer" where
  "glob_files w st =
     (case root w of
        None \<Rightarrow> st
      | Some t \<Rightarrow>
          st \<lparr> python_files := python_files st
                 @ filter (\<lambda>p. \<not> contains ''__pycache__'' (full_str w p))
                     (rglob (suffix ''.py'') [] t),
               config_files := config_files st
                 @ rglob (suffix ''.yaml'') [] t
                 @ rglob (suffix ''.yml'') [] t
                 @ filter (\<lambda>p. \<not> contains ''database.json'' (full_str w p))
                     (rglob (suffix ''.json'') [] t) \<rparr>)"

definition discover_files :: "world \<Rightarrow> reviewer \<Rightarrow> exn + reviewer" where
  "discover_files w st =
     and_then (root_exists w)
       (\<lambda>found. if \<not> found then Inr st else Inr (glob_files w st))"

text \<open>
  The loop \<^verbatim>\<open>for py_file in self.python_files: try: ... except Exception: ...\<close>,
  with the issues one file appends given by \<open>body\<close>.
\<close>

definition for_each_file :: "(path \<Rightarrow> Issue list) \<Rightarrow> reviewer \<Rightarrow> reviewer" where
  "for_each_file body st =
     foldl (\<lambda>s p. s \<lparr> self_issues := self_issues s @ body p \<rparr>) st (python_files st)"

definition newline :: char where
  "newline = CHR 0x0A"

definition is_test :: "world \<Rightarrow> path \<Rightarrow> bool" where
  "is_test w p \<longleftrightarrow> contains ''test'' (lower (full_str w p))"

subsection \<open>\<^verbatim>\<open>_check_imports\<close>\<close>

definition imports_file :: "world \<Rightarrow> path \<Rightarrow> Issue list" where
  "imports_file w p =
     (case read_file w p of
        None \<Rightarrow> []
      | Some content \<Rightarrow>
          concat (map (\<lambda>(i, line).
            if contains ''import'' line \<or> contains ''from'' line then
              (if contains ''coffe_master'' line \<and> contains ''coffee_master'' (full_str w p)
               then [\<lparr> severity = ''CRITICAL'', category = ''BUG'',
                       file_path = rel_str p, line_number = Some i,
                       description =
                         ''Typo in module name: 'coffe_master' should be 'coffee_master''
                           @ [CHR 0x27],
                       recommendation = Some ''Fix import to use correct module name'',
                       code_snippet = Some (strip line) \<rparr>]
               else [])
            else []) (enumerate1 (split_on newline content))))"

definition check_imports :: "world \<Rightarrow> reviewer \<Rightarrow> reviewer" where
  "check_imports w = for_each_file (imports_file w)"

subsection \<open>\<^verbatim>\<open>_check_hardcoded_paths\<close>\<close>

text \<open>
  The regular expression \<^verbatim>\<open>["\'](/home|/Users|C:\\|/tmp/[^/]+)["\']\<close>:
  \<open>path_match_here\<close> says that it matches at the start of a string,
  \<open>path_search\<close> that it matches somewhere (\<^verbatim>\<open>path_pattern.search(line)\<close>).
\<close>

definition is_quote :: "char \<Rightarrow> bool" where
  "is_quote c \<longleftrightarrow> c = CHR 0x22 \<or> c = CHR 0x27"

definition closes :: "string \<Rightarrow> string \<Rightarrow> bool" where
  "closes lit r \<longleftrightarrow>
     prefix lit r \<and> (case drop (length lit) r of [] \<Rightarrow> False | c # _ \<Rightarrow> is_quote c)"

definition path_match_here :: "string \<Rightarrow> bool" where
  "path_match_here s =
     (case s of
        [] \<Rightarrow> False
      | q # r \<Rightarrow>
          is_quote q \<and>
          (closes ''/home'' r \<or> closes ''/Users'' r \<or> closes (''C:'' @ [CHR 0x5C]) r
           \<or> (prefix ''/tmp/'' r
               \<and> list_ex is_quote (tl (takeWhile (\<lambda>c. c \<noteq> CHR ''/'') (drop 5 r))))))"

fun path_search :: "string \<Rightarrow> bool" where
  "path_search [] = False"
| "path_search (c # cs) = (path_match_here (c # cs) \<or> path_search cs)"

definition hardcoded_paths_file :: "world \<Rightarrow> path \<Rightarrow> Issue list" where
  "hardcoded_paths_file w p =
     (case read_file w p of
        None \<Rightarrow> []
      | Some content \<Rightarrow>
          concat (map (\<lambda>(i, line).
            if path_search line \<and> \<not> is_test w p then
              (if \<not> contains ''os.path.join'' line \<and> \<not> contains ''Path('' line
               then [\<lparr> severity = ''CRITICAL'', category = ''BUG'',
                       file_path = rel_str p, line_number = Some i,
                       description = ''Hardcoded absolute path detected'',
                       recommendation = Some
                         ''Use relative paths with Path(__file__).parent or os.path.join'',
                       code_snippet = Some (strip line) \<rparr>]
               else [])
            else []) (enumerate1 (split_on newline content))))"

definition check_hardcoded_paths :: "world \<Rightarrow> reviewer \<Rightarrow> reviewer" where
  "check_hardcoded_paths w = for_each_file (hardcoded_paths_file w)"

subsection \<open>\<^verbatim>\<open>_check_error_handling\<close>\<close>

definition bare_except_issue :: "path \<Rightarrow> int \<Rightarrow> Issue" where
  "bare_except_issue p l =
     \<lparr> severity = ''HIGH'', category = ''CODE_QUALITY'',
       file_path = rel_str p, line_number = Some l,
       description = ''Bare except clause detected'',
       recommendation = Some ''Use specific exception types (e.g., except ValueError:)'',
       code_snippet = None \<rparr>"

fun error_handling_node :: "path \<Rightarrow> ast_node \<Rightarrow> Issue list" where
  "error_handling_node p (ExceptHandler type_is_none l) =
     (if type_is_none then [bare_except_issue p l] else [])"
| "error_handling_node p (FunctionDef name anns ret l doc) = []"
| "error_handling_node p OtherNode = []"

definition error_handling_file :: "world \<Rightarrow> path \<Rightarrow> Issue list" where
  "error_handling_file w p =
     (case read_file w p of
        None \<Rightarrow> []
      | Some content \<Rightarrow>
          (case ast_parse w content of
             None \<Rightarrow> []
           | Some tree \<Rightarrow> concat (map (error_handling_node p) (walk tree))))"

definition check_error_handling :: "world \<Rightarrow> reviewer \<Rightarrow> reviewer" where
  "check_error_handling w = for_each_file (error_handling_file w)"

subsection \<open>\<^verbatim>\<open>_check_logging\<close>\<close>

definition has_logging :: "string \<Rightarrow> bool" where
  "has_logging content \<longleftrightarrow>
     contains ''import logging'' content \<or> contains ''from logging'' content"

definition print_issue :: "path \<Rightarrow> bool \<Rightarrow> int \<Rightarrow> string \<Rightarrow> Issue" where
  "print_issue p logging i line =
     \<lparr> severity = (if logging then ''MEDIUM'' else ''HIGH''), category = ''CODE_QUALITY'',
       file_path = rel_str p, line_number = Some i,
       description = ''Print statement found instead of logging'',
       recommendation = Some ''Replace with logger.info/debug/error'',
       code_snippet = Some (strip line) \<rparr>"

definition logging_file :: "world \<Rightarrow> path \<Rightarrow> Issue list" where
  "logging_file w p =
     (case read_file w p of
        None \<Rightarrow> []
      | Some content \<Rightarrow>
          concat (map (\<lambda>(i, line).
            if prefix ''print('' (strip line) \<and> \<not> is_test w p
            then [print_issue p (has_logging content) i line]
            else []) (enumerate1 (split_on newline content))))"

definition check_logging :: "world \<Rightarrow> reviewer \<Rightarrow> reviewer" where
  "check_logging w = for_each_file (logging_file w)"

subsection \<open>\<^verbatim>\<open>_check_type_hints\<close>\<close>

fun type_hints_node :: "world \<Rightarrow> path \<Rightarrow> ast_node \<Rightarrow> Issue list" where
  "type_hints_node w p (FunctionDef name anns ret l doc) =
     (if is_test w p \<or> prefix ''_'' name then []
      else if \<not> ret \<and> length anns > 0 then
        (if \<not> list_ex (\<lambda>a. a) anns \<and> name \<noteq> ''__init__''
         then [\<lparr> severity = ''LOW'', category = ''CODE_QUALITY'',
                 file_path = rel_str p, line_number = Some l,
                 description =
                   ''Function '' @ [CHR 0x27] @ name @ [CHR 0x27] @ '' missing type hints'',
                 recommendation = Some ''Add type hints for parameters and return type'',
                 code_snippet = None \<rparr>]
         else [])
      else [])"
| "type_hints_node w p (ExceptHandler t l) = []"
| "type_hints_node w p OtherNode = []"

definition type_hints_file :: "world \<Rightarrow> path \<Rightarrow> Issue list" where
  "type_hints_file w p =
     (case read_file w p of
        None \<Rightarrow> []
      | Some content \<Rightarrow>
          (case ast_parse w content of
             None \<Rightarrow> []
           | Some tree \<Rightarrow> concat (map (type_hints_node w p) (walk tree))))"

definition check_type_hints :: "world \<Rightarrow> reviewer \<Rightarrow> reviewer" where
  "check_type_hints w = for_each_file (type_hints_file w)"

subsection \<open>\<^verbatim>\<open>_check_docstrings\<close>\<close>

text \<open>\<^verbatim>\<open>not ast.get_docstring(x)\<close>: there is none, or it is empty.\<close>

definition no_docstring :: "string option \<Rightarrow> bool" where
  "no_docstring d \<longleftrightarrow> (case d of None \<Rightarrow> True | Some s \<Rightarrow> s = [])"

fun docstrings_node :: "world \<Rightarrow> path \<Rightarrow> ast_node \<Rightarrow> Issue list" where
  "docstrings_node w p (FunctionDef name anns ret l doc) =
     (if is_test w p \<or> prefix ''_'' name then []
      else if no_docstring doc
      then [\<lparr> severity = ''LOW'', category = ''DOCUMENTATION'',
              file_path = rel_str p, line_number = Some l,
              description =
                ''Function '' @ [CHR 0x27] @ name @ [CHR 0x27] @ '' missing docstring'',
              recommendation = Some ''Add Google-style docstring'',
              code_snippet = None \<rparr>]
      else [])"
| "docstrings_node w p (ExceptHandler t l) = []"
| "docstrings_node w p OtherNode = []"

definition docstrings_file :: "world \<Rightarrow> path \<Rightarrow> Issue list" where
  "docstrings_file w p =
     (case read_file w p of
        None \<Rightarrow> []
      | Some content \<Rightarrow>
          (case ast_parse w content of
             None \<Rightarrow> []
           | Some tree \<Rightarrow>
               (if no_docstring (module_docstring tree) \<and> \<not> is_test w p
                then [\<lparr> severity = ''LOW'', category = ''DOCUMENTATION'',
                        file_path = rel_str p, line_number = Some 1,
                        description = ''Module missing docstring'',
                        recommendation = Some ''Add module-level docstring'',
                        code_snippet = None \<rparr>]
                else [])
               @ concat (map (docstrings_node w p) (walk tree))))"

definition check_docstrings :: "world \<Rightarrow> reviewer \<Rightarrow> reviewer" where
  "check_docstrings w = for_each_file (docstrings_file w)"

subsection \<open>\<^verbatim>\<open>_check_thread_safety\<close>\<close>

definition thread_safety_file :: "world \<Rightarrow> path \<Rightarrow> Issue list" where
  "thread_safety_file w p =
     (case read_file w p of
        None \<Rightarrow> []
      | Some content \<Rightarrow>
          (if contains ''open('' content \<and> contains ''json.load'' content then
             (if \<not> contains ''threading.Lock'' content
                 \<and> \<not> contains ''multiprocessing.Lock'' content then
                (if contains ''database'' (lower (full_str w p))
                    \<or> contains ''config'' (lower (full_str w p))
                 then [\<lparr> severity = ''HIGH'', category = ''BUG'',
                         file_path = rel_str p, line_number = None,
                         description =
                           ''File I/O operations without thread-safety mechanisms'',
                         recommendation = Some ''Add threading.Lock for concurrent access'',
                         code_snippet = None \<rparr>]
                 else [])
              else [])
           else []))"

definition check_thread_safety :: "world \<Rightarrow> reviewer \<Rightarrow> reviewer" where
  "check_thread_safety w = for_each_file (thread_safety_file w)"

subsection \<open>\<^verbatim>\<open>_check_configuration\<close>\<close>

definition configuration_file :: "world \<Rightarrow> path \<Rightarrow> Issue list" where
  "configuration_file w p =
     (case read_file w p of
        None \<Rightarrow> []
      | Some content \<Rightarrow>
          (if contains ''LOITER_THRESHOLD'' content \<or> contains ''RESET_TIMEOUT'' content then
             (if \<not> contains ''config.yaml'' content
              then [\<lparr> severity = ''MEDIUM'', category = ''ARCHITECTURE'',
                      file_path = rel_str p, line_number = None,
                      description = ''Hardcoded configuration values'',
                      recommendation = Some ''Move tunable parameters to config.yaml'',
                      code_snippet = None \<rparr>]
              else [])
           else []))"

definition check_configuration :: "world \<Rightarrow> reviewer \<Rightarrow> exn + reviewer" where
  "check_configuration w st =
     and_then (child_exists w ''config.yaml'')
       (\<lambda>found. if \<not> found then Inr (for_each_file (configuration_file w) st)
                else Inr st)"

subsection \<open>\<^verbatim>\<open>_check_test_coverage\<close>\<close>

definition no_tests_dir_issue :: Issue where
  "no_tests_dir_issue =
     \<lparr> severity = ''MEDIUM'', category = ''TESTING'',
       file_path = ''tests/'', line_number = None,
       description = ''No tests directory found'',
       recommendation = Some ''Create tests directory with functional tests'',
       code_snippet = None \<rparr>"

definition no_test_files_issue :: Issue where
  "no_test_files_issue =
     \<lparr> severity = ''MEDIUM'', category = ''TESTING'',
       file_path = ''tests/'', line_number = None,
       description = ''No test files found'',
       recommendation = Some ''Add pytest test files'',
       code_snippet = None \<rparr>"

text \<open>\<^verbatim>\<open>list(test_dir.glob("test_*.py"))\<close>, for a tests directory that exists.\<close>

definition test_files :: "world \<Rightarrow> path list" where
  "test_files w =
     (case root w of
        None \<Rightarrow> []
      | Some t \<Rightarrow>
          (case lookup [''tests''] t of
             None \<Rightarrow> []
           | Some d \<Rightarrow> glob test_pattern [''tests''] d))"

definition check_test_coverage :: "world \<Rightarrow> reviewer \<Rightarrow> exn + reviewer" where
  "check_test_coverage w st =
     and_then (child_exists w ''tests'')
       (\<lambda>found.
          if \<not> found
          then Inr (st \<lparr> self_issues := self_issues st @ [no_tests_dir_issue] \<rparr>)
          else if length (test_files w) = 0
          then Inr (st \<lparr> self_issues := self_issues st @ [no_test_files_issue] \<rparr>)
          else Inr st)"

subsection \<open>\<^verbatim>\<open>_check_documentation\<close>\<close>

definition missing_readme_issue :: Issue where
  "missing_readme_issue =
     \<lparr> severity = ''LOW'', category = ''DOCUMENTATION'',
       file_path = ''README.md'', line_number = None,
       description = ''Missing README.md'',
       recommendation = Some ''Create README.md with usage instructions'',
       code_snippet = None \<rparr>"

definition check_documentation :: "world \<Rightarrow> reviewer \<Rightarrow> exn + reviewer" where
  "check_documentation w st =
     and_then (child_exists w ''README.md'')
       (\<lambda>found.
          if \<not> found
          then Inr (st \<lparr> self_issues := self_issues st @ [missing_readme_issue] \<rparr>)
          else Inr st)"

subsection \<open>\<^verbatim>\<open>_check_hailo_dependencies\<close>\<close>

text \<open>
  The two search loops: the first readable file holding one of the two texts ends the
  loop with the flag set; a file that cannot be read is passed over.
\<close>

fun imports_found :: "world \<Rightarrow> string \<Rightarrow> string \<Rightarrow> path list \<Rightarrow> bool" where
  "imports_found w a b [] = False"
| "imports_found w a b (p # ps) =
     (case read_file w p of
        None \<Rightarrow> imports_found w a b ps
      | Some content \<Rightarrow>
          (if contains a content \<or> contains b content then True
           else imports_found w a b ps))"

definition hailo_missing_issue :: Issue where
  "hailo_missing_issue =
     \<lparr> severity = ''CRITICAL'', category = ''ARCHITECTURE'',
       file_path = ''setup/installation'', line_number = None,
       description = ''Hailo library is imported but not available. ''
         @ ''This indicates a setup or installation issue.'',
       recommendation = Some (''Install Hailo libraries: pip install hailort ''
         @ ''or follow Hailo installation guide''),
       code_snippet = None \<rparr>"

definition hailo_apps_missing_issue :: Issue where
  "hailo_apps_missing_issue =
     \<lparr> severity = ''CRITICAL'', category = ''ARCHITECTURE'',
       file_path = ''setup/installation'', line_number = None,
       description = ''hailo_apps package is imported but not available. ''
         @ ''This indicates a setup or installation issue.'',
       recommendation = Some (''Install hailo_apps package ''
         @ ''or ensure PYTHONPATH is set correctly''),
       code_snippet = None \<rparr>"

definition check_hailo_dependencies :: "world \<Rightarrow> reviewer \<Rightarrow> reviewer" where
  "check_hailo_dependencies w st =
     (let hailo_imports_found =
            imports_found w ''import hailo'' ''from hailo'' (python_files st);
          hailo_apps_imports_found =
            imports_found w ''from hailo_apps'' ''import hailo_apps'' (python_files st);
          st1 = (if hailo_imports_found \<and> \<not> hailo_importable w
                 then st \<lparr> self_issues := self_issues st @ [hailo_missing_issue] \<rparr>
                 else st)
      in if hailo_apps_imports_found \<and> \<not> hailo_apps_importable w
         then st1 \<lparr> self_issues := self_issues st1 @ [hailo_apps_missing_issue] \<rparr>
         else st1)"

subsection \<open>\<^verbatim>\<open>review\<close>\<close>

definition run_checks :: "world \<Rightarrow> exn + reviewer" where
  "run_checks w =
     and_then (discover_files w init_reviewer) (\<lambda>s0.
     and_then (check_configuration w
                (check_thread_safety w
                  (check_docstrings w
                    (check_type_hints w
                      (check_logging w
                        (check_error_handling w
                          (check_hardcoded_paths w
                            (check_imports w s0)))))))) (\<lambda>s8.
     and_then (check_test_coverage w s8) (\<lambda>s9.
     and_then (check_documentation w s9) (\<lambda>s10.
     Inr (check_hailo_dependencies w s10)))))"

definition review :: "world \<Rightarrow> exn + ReviewResult" where
  "review w =
     and_then (run_checks w)
       (\<lambda>s. Inr (generate_result (root_name w) (self_issues s)))"

section \<open>The reporter\<close>

text \<open>\<^verbatim>\<open>asdict(result)\<close>: the nested dictionaries handed to \<^verbatim>\<open>json.dumps\<close>.\<close>

definition json_opt_int :: "int option \<Rightarrow> json" where
  "json_opt_int x = (case x of None \<Rightarrow> JNull | Some i \<Rightarrow> JInt i)"

definition json_opt_str :: "string option \<Rightarrow> json" where
  "json_opt_str x = (case x of None \<Rightarrow> JNull | Some s \<Rightarrow> JStr s)"

definition json_counts :: "counts \<Rightarrow> json" where
  "json_counts d = JObj (map (\<lambda>(k, v). (k, JInt v)) d)"

definition asdict_issue :: "Issue \<Rightarrow> json" where
  "asdict_issue i =
     JObj [(''severity'', JStr (severity i)),
           (''category'', JStr (category i)),
           (''file_path'', JStr (file_path i)),
           (''line_number'', json_opt_int (line_number i)),
           (''description'', JStr (description i)),
           (''recommendation'', json_opt_str (recommendation i)),
           (''code_snippet'', json_opt_str (code_snippet i))]"

definition asdict :: "ReviewResult \<Rightarrow> json" where
  "asdict r =
     JObj [(''application_name'', JStr (application_name r)),
           (''total_issues'', JInt (total_issues r)),
           (''issues_by_severity'', json_counts (issues_by_severity r)),
           (''issues_by_category'', json_counts (issues_by_category r)),
           (''issues'', JList (map asdict_issue (issues r))),
           (''summary'', JStr (summary r)),
           (''recommendations'', JList (map JStr (recommendations r)))]"

text \<open>The truth value Python gives an optional line number or text in an \<^verbatim>\<open>if\<close>.\<close>

definition truthy_int :: "int option \<Rightarrow> bool" where
  "truthy_int x \<longleftrightarrow> (case x of None \<Rightarrow> False | Some i \<Rightarrow> i \<noteq> 0)"

definition truthy_str :: "string option \<Rightarrow> bool" where
  "truthy_str x \<longleftrightarrow> (case x of None \<Rightarrow> False | Some s \<Rightarrow> s \<noteq> [])"

text \<open>What an f-string prints for an optional value that is present.\<close>

definition fmt_int :: "int option \<Rightarrow> string" where
  "fmt_int x = (case x of None \<Rightarrow> ''None'' | Some i \<Rightarrow> str_int i)"

definition fmt_str :: "string option \<Rightarrow> string" where
  "fmt_str x = (case x of None \<Rightarrow> ''None'' | Some s \<Rightarrow> s)"

subsection \<open>\<^verbatim>\<open>_format_markdown\<close>\<close>

definition markdown_head :: "ReviewResult \<Rightarrow> string list" where
  "markdown_head r =
     [''# Application Review: '' @ application_name r,
      '''',
      ''**Summary**: '' @ summary r,
      '''',
      ''## Statistics'',
      '''',
      ''- Total Issues: '' @ str_int (total_issues r),
      ''- Critical: '' @ str_int (dict_get (issues_by_severity r) ''CRITICAL'' 0),
      ''- High: '' @ str_int (dict_get (issues_by_severity r) ''HIGH'' 0),
      ''- Medium: '' @ str_int (dict_get (issues_by_severity r) ''MEDIUM'' 0),
      ''- Low: '' @ str_int (dict_get (issues_by_severity r) ''LOW'' 0),
      '''',
      ''## Issues'',
      '''']"

definition markdown_issue :: "Issue \<Rightarrow> string list" where
  "markdown_issue i =
     [''#### '' @ file_path i]
     @ [if truthy_int (line_number i)
        then ''**Line '' @ fmt_int (line_number i) @ ''**: '' @ description i
        else ''**'' @ description i @ ''**'']
     @ (if truthy_str (recommendation i)
        then [''- Recommendation: '' @ fmt_str (recommendation i)] else [])
     @ (if truthy_str (code_snippet i)
        then [''```python'' @ [newline] @ fmt_str (code_snippet i) @ [newline] @ ''```'']
        else [])
     @ ['''']"

definition markdown_group :: "ReviewResult \<Rightarrow> string \<Rightarrow> string list" where
  "markdown_group r sev =
     (let severity_issues = filter (\<lambda>i. severity i = sev) (issues r)
      in if severity_issues \<noteq> []
         then [''### '' @ sev @ '' Issues'', ''''] @ concat (map markdown_issue severity_issues)
         else [])"

definition markdown_recommendations :: "ReviewResult \<Rightarrow> string list" where
  "markdown_recommendations r =
     (if recommendations r \<noteq> []
      then [''## Recommendations'', ''''] @ map (\<lambda>rec. ''- '' @ rec) (recommendations r) @ ['''']
      else [])"

definition markdown_lines :: "ReviewResult \<Rightarrow> string list" where
  "markdown_lines r =
     foldl (\<lambda>lines sev. lines @ markdown_group r sev) (markdown_head r)
       [''CRITICAL'', ''HIGH'', ''MEDIUM'', ''LOW'']
     @ markdown_recommendations r"

definition format_markdown :: "ReviewResult \<Rightarrow> string" where
  "format_markdown r = join [newline] (markdown_lines r)"

subsection \<open>\<^verbatim>\<open>_format_text\<close>\<close>

definition text_head :: "ReviewResult \<Rightarrow> string list" where
  "text_head r =
     [''Application Review: '' @ application_name r,
      replicate 60 (CHR ''=''),
      ''Summary: '' @ summary r,
      '''',
      ''Total Issues: '' @ str_int (total_issues r),
      ''  Critical: '' @ str_int (dict_get (issues_by_severity r) ''CRITICAL'' 0),
      ''  High: '' @ str_int (dict_get (issues_by_severity r) ''HIGH'' 0),
      ''  Medium: '' @ str_int (dict_get (issues_by_severity r) ''MEDIUM'' 0),
      ''  Low: '' @ str_int (dict_get (issues_by_severity r) ''LOW'' 0),
      '''',
      ''Issues:'',
      '''']"

definition text_issue :: "Issue \<Rightarrow> string list" where
  "text_issue i =
     [''['' @ severity i @ ''] '' @ file_path i]
     @ [if truthy_int (line_number i)
        then ''  Line '' @ fmt_int (line_number i) @ '': '' @ description i
        else ''  '' @ description i]
     @ (if truthy_str (recommendation i)
        then [''  -> '' @ fmt_str (recommendation i)] else [])
     @ ['''']"

definition text_lines :: "ReviewResult \<Rightarrow> string list" where
  "text_lines r = foldl (\<lambda>lines i. lines @ text_issue i) (text_head r) (issues r)"

definition format_text :: "ReviewResult \<Rightarrow> string" where
  "format_text r = join [newline] (text_lines r)"

subsection \<open>\<^verbatim>\<open>review_application\<close>\<close>

definition review_application :: "world \<Rightarrow> string \<Rightarrow> exn + string" where
  "review_application w output_format =
     and_then (review w)
       (\<lambda>result.
          if output_format = ''json'' then Inr (json_dumps w (asdict result))
          else if output_format = ''markdown'' then Inr (format_markdown result)
          else Inr (format_text result))"

section \<open>What a run reports, check by check\<close>

text \<open>One of the four existence tests of a run raises.\<close>

definition stat_raises :: "world \<Rightarrow> bool" where
  "stat_raises w \<longleftrightarrow>
     root_stat_error w \<or> child_stat_error w ''config.yaml''
     \<or> child_stat_error w ''tests'' \<or> child_stat_error w ''README.md''"

text \<open>The source files a run discovers, and what each check adds to the shared list.\<close>

definition discovered :: "world \<Rightarrow> path list" where
  "discovered w = python_files (glob_files w init_reviewer)"

definition per_file :: "world \<Rightarrow> (path \<Rightarrow> Issue list) \<Rightarrow> Issue list" where
  "per_file w body = concat (map body (discovered w))"

definition configuration_issues :: "world \<Rightarrow> Issue list" where
  "configuration_issues w =
     (if child_exists w ''config.yaml'' = Inr False then per_file w (configuration_file w)
      else [])"

definition test_coverage_issues :: "world \<Rightarrow> Issue list" where
  "test_coverage_issues w =
     (if child_exists w ''tests'' = Inr False then [no_tests_dir_issue]
      else if test_files w = [] then [no_test_files_issue]
      else [])"

definition documentation_issues :: "world \<Rightarrow> Issue list" where
  "documentation_issues w =
     (if child_exists w ''README.md'' = Inr False then [missing_readme_issue] else [])"

definition hailo_issues :: "world \<Rightarrow> Issue list" where
  "hailo_issues w =
     (if imports_found w ''import hailo'' ''from hailo'' (discovered w)
         \<and> \<not> hailo_importable w
      then [hailo_missing_issue] else [])
     @ (if imports_found w ''from hailo_apps'' ''import hailo_apps'' (discovered w)
           \<and> \<not> hailo_apps_importable w
        then [hailo_apps_missing_issue] else [])"

definition run_issues :: "world \<Rightarrow> Issue list" where
  "run_issues w =
     per_file w (imports_file w) @ per_file w (hardcoded_paths_file w)
     @ per_file w (error_handling_file w) @ per_file w (logging_file w)
     @ per_file w (type_hints_file w) @ per_file w (docstrings_file w)
     @ per_file w (thread_safety_file w) @ configuration_issues w
     @ test_coverage_issues w @ documentation_issues w @ hailo_issues w"

text \<open>
  The line numbers of the exception handlers of a module that declare no exception
  type, in the order \<^verbatim>\<open>ast.walk\<close> meets them.
\<close>

fun bare_handler_line :: "ast_node \<Rightarrow> int list" where
  "bare_handler_line (ExceptHandler type_is_none l) = (if type_is_none then [l] else [])"
| "bare_handler_line (FunctionDef name anns ret l doc) = []"
| "bare_handler_line OtherNode = []"

definition bare_handler_lines :: "py_module \<Rightarrow> int list" where
  "bare_handler_lines tree = concat (map bare_handler_line (walk tree))"

section \<open>A world to evaluate on\<close>

text \<open>
  A root at \<^verbatim>\<open>/srv/app\<close> holding \<open>r\<close>, where every existence test answers, no file
  parses and both vendor modules can be imported; the examples below change it field by
  field.
\<close>

definition example_world :: "node option \<Rightarrow> world" where
  "example_world r =
     \<lparr> root_str = ''/srv/app'', root_name = ''app'', root = r,
       root_stat_error = False, child_stat_error = (\<lambda>name. False),
       ast_parse = (\<lambda>s. None), hailo_importable = True, hailo_apps_importable = True,
       json_dumps = (\<lambda>j. []) \<rparr>"

section \<open>Counting lemmas\<close>

lemma incr_sum: "sum_list (map snd (incr k d)) = sum_list (map snd d) + 1"
  by (induction k d rule: incr.induct) auto

lemma incr_keys: "fst ` set (incr k d) = insert k (fst ` set d)"
  by (induction k d rule: incr.induct) auto

lemma incr_distinct: "distinct (map fst d) \<Longrightarrow> distinct (map fst (incr k d))"
proof (induction k d rule: incr.induct)
  case (1 k)
  show ?case by simp
next
  case (2 k k' v d)
  have "fst ` set (incr k d) = insert k (fst ` set d)" by (rule incr_keys)
  with 2 show ?case by auto
qed

lemma incr_get:
  "dict_get (incr k d) k' 0 = dict_get d k' 0 + (if k' = k then 1 else 0)"
  by (induction k d rule: incr.induct) (auto simp: dict_get_def)

lemma foldl_incr_sum:
  "sum_list (map snd (foldl (\<lambda>d i. incr (key i) d) d0 xs))
     = sum_list (map snd d0) + int (length xs)"
  by (induction xs arbitrary: d0) (auto simp: incr_sum)

lemma foldl_incr_keys:
  "fst ` set (foldl (\<lambda>d i. incr (key i) d) d0 xs) = fst ` set d0 \<union> key ` set xs"
  by (induction xs arbitrary: d0) (auto simp: incr_keys)

lemma foldl_incr_distinct:
  "distinct (map fst d0) \<Longrightarrow> distinct (map fst (foldl (\<lambda>d i. incr (key i) d) d0 xs))"
  by (induction xs arbitrary: d0) (auto simp: incr_distinct)

lemma foldl_incr_get:
  "dict_get (foldl (\<lambda>d i. incr (key i) d) d0 xs) k 0
     = dict_get d0 k 0 + int (length (filter (\<lambda>i. key i = k) xs))"
  by (induction xs arbitrary: d0) (auto simp: incr_get)

lemma count_by_sum: "sum_list (map snd (count_by key xs)) = int (length xs)"
  by (simp add: count_by_def foldl_incr_sum)

lemma count_by_keys: "fst ` set (count_by key xs) = key ` set xs"
  by (simp add: count_by_def foldl_incr_keys)

lemma count_by_distinct: "distinct (map fst (count_by key xs))"
  by (simp add: count_by_def foldl_incr_distinct)

lemma dict_get_empty: "dict_get [] k dflt = dflt"
  by (simp add: dict_get_def)

lemma count_by_get:
  "dict_get (count_by key xs) k 0 = int (length (filter (\<lambda>i. key i = k) xs))"
  by (simp add: count_by_def foldl_incr_get dict_get_empty)

section \<open>The shared issue list\<close>

lemma foldl_append_issues:
  "self_issues (foldl (\<lambda>s p. s \<lparr> self_issues := self_issues s @ body p \<rparr>) st ps)
     = self_issues st @ concat (map body ps)"
  by (induction ps arbitrary: st) simp_all

lemma foldl_append_python_files:
  "python_files (foldl (\<lambda>s p. s \<lparr> self_issues := self_issues s @ body p \<rparr>) st ps)
     = python_files st"
  by (induction ps arbitrary: st) simp_all

lemma for_each_file_issues:
  "self_issues (for_each_file body st) = self_issues st @ concat (map body (python_files st))"
  by (simp add: for_each_file_def foldl_append_issues)

lemma for_each_file_python_files:
  "python_files (for_each_file body st) = python_files st"
  by (simp add: for_each_file_def foldl_append_python_files)

lemma discover_files_raises:
  "root_stat_error w \<Longrightarrow> discover_files w st = Inl OSError"
  by (simp add: discover_files_def root_exists_def and_then_def)

lemma discover_files_returns:
  "\<not> root_stat_error w \<Longrightarrow> discover_files w st = Inr (glob_files w st)"
  by (simp add: discover_files_def root_exists_def and_then_def glob_files_def)

lemma glob_files_issues: "self_issues (glob_files w st) = self_issues st"
  by (simp add: glob_files_def split: option.splits)

lemma check_configuration_raises:
  "child_stat_error w ''config.yaml'' \<Longrightarrow> check_configuration w st = Inl OSError"
  by (simp add: check_configuration_def child_exists_def and_then_def)

lemma check_configuration_returns:
  assumes "\<not> child_stat_error w ''config.yaml''" and "python_files st = discovered w"
  shows "\<exists>st'. check_configuration w st = Inr st'
     \<and> self_issues st' = self_issues st @ configuration_issues w
     \<and> python_files st' = discovered w"
  using assms
  by (simp add: check_configuration_def child_exists_def and_then_def configuration_issues_def
      per_file_def for_each_file_issues for_each_file_python_files)

lemma check_test_coverage_raises:
  "child_stat_error w ''tests'' \<Longrightarrow> check_test_coverage w st = Inl OSError"
  by (simp add: check_test_coverage_def child_exists_def and_then_def)

lemma check_test_coverage_returns:
  assumes "\<not> child_stat_error w ''tests''"
  shows "\<exists>st'. check_test_coverage w st = Inr st'
     \<and> self_issues st' = self_issues st @ test_coverage_issues w
     \<and> python_files st' = python_files st"
  using assms
  by (simp add: check_test_coverage_def child_exists_def and_then_def test_coverage_issues_def)

lemma check_documentation_raises:
  "child_stat_error w ''README.md'' \<Longrightarrow> check_documentation w st = Inl OSError"
  by (simp add: check_documentation_def child_exists_def and_then_def)

lemma check_documentation_returns:
  assumes "\<not> child_stat_error w ''README.md''"
  shows "\<exists>st'. check_documentation w st = Inr st'
     \<and> self_issues st' = self_issues st @ documentation_issues w
     \<and> python_files st' = python_files st"
  using assms
  by (simp add: check_documentation_def child_exists_def and_then_def documentation_issues_def)

lemma check_hailo_dependencies_issues:
  "python_files st = discovered w \<Longrightarrow>
   self_issues (check_hailo_dependencies w st) = self_issues st @ hailo_issues w"
  by (simp add: check_hailo_dependencies_def hailo_issues_def Let_def)

lemma and_then_Inl: "and_then (Inl e) f = Inl e"
  by (simp add: and_then_def)

lemma and_then_Inr: "and_then (Inr x) f = f x"
  by (simp add: and_then_def)

lemma and_then_raises: "(\<And>x. f x = Inl e) \<Longrightarrow> m = Inl e \<or> (\<exists>x. m = Inr x) \<Longrightarrow> and_then m f = Inl e"
  by (auto simp: and_then_def)

lemma exn_cases: "(m :: exn + 'a) = Inl OSError \<or> (\<exists>x. m = Inr x)"
proof (cases m)
  case (Inl e)
  then show ?thesis by (cases e) simp
next
  case (Inr x)
  then show ?thesis by simp
qed

lemma run_checks_raises:
  assumes "stat_raises w"
  shows "run_checks w = Inl OSError"
proof (cases "root_stat_error w")
  case True
  then show ?thesis
    by (simp add: run_checks_def discover_files_raises and_then_Inl)
next
  case root: False
  define s7 where "s7 = check_thread_safety w (check_docstrings w (check_type_hints w
    (check_logging w (check_error_handling w (check_hardcoded_paths w
      (check_imports w (glob_files w init_reviewer)))))))"
  have start: "run_checks w =
      and_then (check_configuration w s7) (\<lambda>s8.
      and_then (check_test_coverage w s8) (\<lambda>s9.
      and_then (check_documentation w s9) (\<lambda>s10.
      Inr (check_hailo_dependencies w s10))))"
    using root by (simp add: run_checks_def discover_files_returns and_then_Inr s7_def)
  show ?thesis
  proof (cases "child_stat_error w ''config.yaml''")
    case True
    then show ?thesis
      by (simp add: start check_configuration_raises and_then_Inl)
  next
    case config: False
    show ?thesis
    proof (cases "child_stat_error w ''tests''")
      case True
      have "\<And>s8. and_then (check_test_coverage w s8) (\<lambda>s9.
          and_then (check_documentation w s9) (\<lambda>s10.
          Inr (check_hailo_dependencies w s10))) = Inl OSError"
        using True by (simp add: check_test_coverage_raises and_then_Inl)
      then show ?thesis
        unfolding start by (rule and_then_raises) (rule exn_cases)
    next
      case tests: False
      with assms root config have readme: "child_stat_error w ''README.md''"
        by (simp add: stat_raises_def)
      have inner: "\<And>s9. and_then (check_documentation w s9) (\<lambda>s10.
          Inr (check_hailo_dependencies w s10)) = Inl OSError"
        using readme by (simp add: check_documentation_raises and_then_Inl)
      have "\<And>s8. and_then (check_test_coverage w s8) (\<lambda>s9.
          and_then (check_documentation w s9) (\<lambda>s10.
          Inr (check_hailo_dependencies w s10))) = Inl OSError"
        by (rule and_then_raises) (simp_all add: inner exn_cases)
      then show ?thesis
        unfolding start by (rule and_then_raises) (rule exn_cases)
    qed
  qed
qed

lemma run_checks_returns:
  assumes "\<not> stat_raises w"
  shows "\<exists>s. run_checks w = Inr s \<and> self_issues s = run_issues w"
proof -
  from assms have root: "\<not> root_stat_error w" and config: "\<not> child_stat_error w ''config.yaml''"
    and tests: "\<not> child_stat_error w ''tests''" and readme: "\<not> child_stat_error w ''README.md''"
    by (simp_all add: stat_raises_def)
  define s0 where "s0 = glob_files w init_reviewer"
  have files: "python_files s0 = discovered w"
    by (simp add: s0_def discovered_def)
  have start: "self_issues s0 = []"
    by (simp add: s0_def glob_files_issues init_reviewer_def)
  define s7 where "s7 = check_thread_safety w (check_docstrings w (check_type_hints w
    (check_logging w (check_error_handling w (check_hardcoded_paths w (check_imports w s0))))))"
  have files7: "python_files s7 = discovered w"
    by (simp add: s7_def files for_each_file_python_files check_imports_def
        check_hardcoded_paths_def check_error_handling_def check_logging_def
        check_type_hints_def check_docstrings_def check_thread_safety_def)
  have issues7: "self_issues s7 =
     per_file w (imports_file w) @ per_file w (hardcoded_paths_file w)
     @ per_file w (error_handling_file w) @ per_file w (logging_file w)
     @ per_file w (type_hints_file w) @ per_file w (docstrings_file w)
     @ per_file w (thread_safety_file w)"
    by (simp add: s7_def files start for_each_file_python_files for_each_file_issues
        check_imports_def check_hardcoded_paths_def check_error_handling_def
        check_logging_def check_type_hints_def check_docstrings_def
        check_thread_safety_def per_file_def)
  from check_configuration_returns [OF config files7]
  obtain s8 where s8: "check_configuration w s7 = Inr s8"
    and issues8: "self_issues s8 = self_issues s7 @ configuration_issues w"
    and files8: "python_files s8 = discovered w"
    by blast
  from check_test_coverage_returns [OF tests, of s8]
  obtain s9 where s9: "check_test_coverage w s8 = Inr s9"
    and issues9: "self_issues s9 = self_issues s8 @ test_coverage_issues w"
    and files9: "python_files s9 = python_files s8"
    by blast
  from check_documentation_returns [OF readme, of s9]
  obtain s10 where s10: "check_documentation w s9 = Inr s10"
    and issues10: "self_issues s10 = self_issues s9 @ documentation_issues w"
    and files10: "python_files s10 = python_files s9"
    by blast
  have run: "run_checks w = Inr (check_hailo_dependencies w s10)"
    using root s8 s9 s10
    by (simp add: run_checks_def discover_files_returns and_then_Inr s7_def s0_def)
  have "python_files s10 = discovered w"
    by (simp add: files10 files9 files8)
  then have "self_issues (check_hailo_dependencies w s10) = self_issues s10 @ hailo_issues w"
    by (rule check_hailo_dependencies_issues)
  then have "self_issues (check_hailo_dependencies w s10) = run_issues w"
    by (simp add: issues10 issues9 issues8 issues7 run_issues_def)
  with run show ?thesis by simp
qed

lemma review_raises: "stat_raises w \<Longrightarrow> review w = Inl OSError"
  by (simp add: review_def run_checks_raises and_then_Inl)

lemma review_returns:
  "\<not> stat_raises w \<Longrightarrow> review w = Inr (generate_result (root_name w) (run_issues w))"
  using run_checks_returns [of w] by (auto simp: review_def and_then_Inr)

lemma review_result:
  assumes "review w = Inr r"
  shows "\<not> stat_raises w" and "r = generate_result (root_name w) (run_issues w)"
proof -
  show no: "\<not> stat_raises w"
    using assms review_raises [of w] by auto
  then show "r = generate_result (root_name w) (run_issues w)"
    using assms review_returns [of w] by simp
qed

lemma review_issues:
  assumes "review w = Inr r"
  shows "issues r = run_issues w"
proof -
  from assms have "r = generate_result (root_name w) (run_issues w)"
    by (rule review_result(2))
  then show ?thesis
    by (simp add: generate_result_def Let_def)
qed

section \<open>The aggregate counts\<close>

lemma generate_result_counts:
  "total_issues (generate_result name xs) = int (length xs)
   \<and> issues (generate_result name xs) = xs
   \<and> sum_list (map snd (issues_by_severity (generate_result name xs))) = int (length xs)
   \<and> sum_list (map snd (issues_by_category (generate_result name xs))) = int (length xs)
   \<and> fst ` set (issues_by_severity (generate_result name xs)) = severity ` set xs
   \<and> fst ` set (issues_by_category (generate_result name xs)) = category ` set xs
   \<and> distinct (map fst (issues_by_severity (generate_result name xs)))
   \<and> distinct (map fst (issues_by_category (generate_result name xs)))"
  by (simp add: generate_result_def Let_def count_by_sum count_by_keys count_by_distinct)

lemma two_issue_result:
  "generate_result name [no_tests_dir_issue, missing_readme_issue] =
     \<lparr> application_name = name,
       total_issues = 2,
       issues_by_severity = [(''MEDIUM'', 1), (''LOW'', 1)],
       issues_by_category = [(''TESTING'', 1), (''DOCUMENTATION'', 1)],
       issues = [no_tests_dir_issue, missing_readme_issue],
       summary = ''Found 2 issues, mostly code quality improvements.'',
       recommendations = [''Improve test coverage'', ''Add missing documentation''] \<rparr>"
  by (simp add: generate_result_def Let_def count_by_def no_tests_dir_issue_def
      missing_readme_issue_def generate_summary_def generate_recommendations_def
      dict_get_def str_int_def str_nat.simps)

lemma example_world_quiet: "\<not> stat_raises (example_world r)"
  by (simp add: stat_raises_def example_world_def)

lemma no_files_issues:
  assumes "discovered w = []"
    and "child_exists w ''tests'' = Inr False" and "child_exists w ''README.md'' = Inr False"
  shows "run_issues w = [no_tests_dir_issue, missing_readme_issue]"
  using assms
  by (simp add: run_issues_def per_file_def configuration_issues_def
      test_coverage_issues_def documentation_issues_def hailo_issues_def)

lemma example_missing_root_review:
  "review (example_world None)
     = Inr (generate_result ''app'' [no_tests_dir_issue, missing_readme_issue])"
proof -
  have "run_issues (example_world None) = [no_tests_dir_issue, missing_readme_issue]"
    by (rule no_files_issues)
      (simp_all add: example_world_def discovered_def glob_files_def init_reviewer_def
        child_exists_def)
  then show ?thesis
    using review_returns [OF example_world_quiet, of None] by (simp add: example_world_def)
qed

text \<open>
  C1.  The result a review run returns has \<open>total_issues\<close> equal to the length of
  \<open>issues\<close>, to the sum of the values of \<open>issues_by_severity\<close> and to the sum of the
  values of \<open>issues_by_category\<close>; the keys of the two count mappings are exactly the
  severities and the categories that occur in the issue list, each key once.
\<close>

theorem review_counts_consistent:
  assumes "review w = Inr r"
  shows "total_issues r = int (length (issues r))
   \<and> int (length (issues r)) = sum_list (map snd (issues_by_severity r))
   \<and> sum_list (map snd (issues_by_severity r)) = sum_list (map snd (issues_by_category r))
   \<and> fst ` set (issues_by_severity r) = severity ` set (issues r)
   \<and> fst ` set (issues_by_category r) = category ` set (issues r)
   \<and> distinct (map fst (issues_by_severity r))
   \<and> distinct (map fst (issues_by_category r))"
proof -
  from assms have "r = generate_result (root_name w) (run_issues w)"
    by (rule review_result(2))
  then show ?thesis
    using generate_result_counts [of "root_name w" "run_issues w"] by simp
qed

theorem review_counts_consistent_witness:
  "review (example_world None)
     = Inr (generate_result ''app'' [no_tests_dir_issue, missing_readme_issue])
   \<and> total_issues (generate_result ''app'' [no_tests_dir_issue, missing_readme_issue]) = 2
   \<and> sum_list (map snd (issues_by_severity
        (generate_result ''app'' [no_tests_dir_issue, missing_readme_issue]))) = 2
   \<and> sum_list (map snd (issues_by_category
        (generate_result ''app'' [no_tests_dir_issue, missing_readme_issue]))) = 2
   \<and> fst ` set (issues_by_severity
        (generate_result ''app'' [no_tests_dir_issue, missing_readme_issue]))
       = {''MEDIUM'', ''LOW''}
   \<and> fst ` set (issues_by_category
        (generate_result ''app'' [no_tests_dir_issue, missing_readme_issue]))
       = {''TESTING'', ''DOCUMENTATION''}"
  using review_counts_consistent [OF example_missing_root_review] example_missing_root_review
  by (simp add: two_issue_result)

section \<open>Summary and recommendations\<close>

lemma critical_count_positive:
  assumes "i \<in> set xs" and "severity i = ''CRITICAL''"
  shows "0 < dict_get (count_by severity xs) ''CRITICAL'' 0"
proof -
  from assms have "i \<in> set (filter (\<lambda>i. severity i = ''CRITICAL'') xs)" by simp
  then have "0 < length (filter (\<lambda>i. severity i = ''CRITICAL'') xs)"
    by (rule length_pos_if_in_set)
  then show ?thesis by (simp add: count_by_get)
qed

lemma generate_result_critical:
  assumes "i \<in> set xs" and "severity i = ''CRITICAL''"
  shows "summary (generate_result name xs) =
           ''CRITICAL: '' @ str_int (int (length (filter (\<lambda>i. severity i = ''CRITICAL'') xs)))
             @ '' critical issues found. Immediate attention required.''"
    and "''Fix all CRITICAL issues before deployment'' \<in> set (recommendations (generate_result name xs))"
proof -
  have pos: "0 < dict_get (count_by severity xs) ''CRITICAL'' 0"
    using assms by (rule critical_count_positive)
  show "summary (generate_result name xs) =
           ''CRITICAL: '' @ str_int (int (length (filter (\<lambda>i. severity i = ''CRITICAL'') xs)))
             @ '' critical issues found. Immediate attention required.''"
    using pos by (simp add: generate_result_def generate_summary_def Let_def count_by_get)
  show "''Fix all CRITICAL issues before deployment'' \<in> set (recommendations (generate_result name xs))"
    using pos by (simp add: generate_result_def generate_recommendations_def Let_def)
qed

lemma generate_result_empty:
  "summary (generate_result name []) = ''No issues found. Application looks good!''"
  "recommendations (generate_result name []) = []"
  by (simp_all add: generate_result_def generate_summary_def generate_recommendations_def
      Let_def count_by_def dict_get_empty)

text \<open>
  C7.  When the issue list holds an issue of severity CRITICAL, the summary is the
  CRITICAL sentence with the number of CRITICAL issues in it, and the recommendations
  hold the item \<open>Fix all CRITICAL issues before deployment\<close>; when the issue list is
  empty, the summary is the fixed message \<open>No issues found. Application looks good!\<close>
  and there is no recommendation.
\<close>

theorem summary_and_recommendations:
  "((\<exists>i \<in> set xs. severity i = ''CRITICAL'') \<longrightarrow>
      summary (generate_result name xs) =
        ''CRITICAL: '' @ str_int (int (length (filter (\<lambda>i. severity i = ''CRITICAL'') xs)))
          @ '' critical issues found. Immediate attention required.''
      \<and> ''Fix all CRITICAL issues before deployment''
          \<in> set (recommendations (generate_result name xs)))
   \<and> (xs = [] \<longrightarrow>
      summary (generate_result name xs) = ''No issues found. Application looks good!''
      \<and> recommendations (generate_result name xs) = [])"
  using generate_result_critical [of _ xs name] generate_result_empty [of name] by blast

theorem summary_and_recommendations_witness:
  "summary (generate_result ''app'' [hailo_missing_issue, missing_readme_issue, hailo_apps_missing_issue])
     = ''CRITICAL: 2 critical issues found. Immediate attention required.''
   \<and> ''Fix all CRITICAL issues before deployment''
       \<in> set (recommendations (generate_result ''app''
           [hailo_missing_issue, missing_readme_issue, hailo_apps_missing_issue]))
   \<and> summary (generate_result ''app'' []) = ''No issues found. Application looks good!''
   \<and> recommendations (generate_result ''app'' []) = []"
proof -
  have crit: "\<exists>i \<in> set [hailo_missing_issue, missing_readme_issue, hailo_apps_missing_issue].
      severity i = ''CRITICAL''"
    by (simp add: hailo_missing_issue_def)
  note critical = summary_and_recommendations
    [of "[hailo_missing_issue, missing_readme_issue, hailo_apps_missing_issue]" "''app''",
      THEN conjunct1, THEN mp, OF crit]
  note clean = summary_and_recommendations
    [of "[]" "''app''", THEN conjunct2, THEN mp, OF refl]
  show ?thesis
    using critical clean
    by (simp add: hailo_missing_issue_def missing_readme_issue_def
        hailo_apps_missing_issue_def str_int_def str_nat.simps)
qed

section \<open>A root that is missing or empty\<close>

lemma missing_root_issues:
  assumes "root w = None" and "\<not> stat_raises w"
  shows "run_issues w = [no_tests_dir_issue, missing_readme_issue]"
proof (rule no_files_issues)
  show "discovered w = []"
    using assms(1) by (simp add: discovered_def glob_files_def init_reviewer_def)
  show "child_exists w ''tests'' = Inr False"
    using assms by (simp add: child_exists_def stat_raises_def)
  show "child_exists w ''README.md'' = Inr False"
    using assms by (simp add: child_exists_def stat_raises_def)
qed

lemma empty_root_issues:
  assumes "root w = Some (Dir [])" and "\<not> stat_raises w"
  shows "run_issues w = [no_tests_dir_issue, missing_readme_issue]"
proof (rule no_files_issues)
  show "discovered w = []"
    using assms(1) by (simp add: discovered_def glob_files_def init_reviewer_def)
  show "child_exists w ''tests'' = Inr False"
    using assms by (simp add: child_exists_def stat_raises_def)
  show "child_exists w ''README.md'' = Inr False"
    using assms by (simp add: child_exists_def stat_raises_def)
qed

text \<open>
  C5.  Let nothing exist at the root path.  When the four existence tests of the run
  answer, file discovery leaves both inventories empty and the run returns the result
  with the two findings for the missing tests directory and the missing README.  When
  one of them raises, the run raises: the test of the root path itself is outside every
  \<^verbatim>\<open>try\<close>, so a root path that does not exist and whose name the system refuses as too
  long ends the run with \<^verbatim>\<open>OSError\<close> in \<^verbatim>\<open>_discover_files\<close>.
\<close>

theorem missing_root_review:
  assumes "root w = None"
  shows "(\<not> stat_raises w \<longrightarrow>
            discover_files w init_reviewer = Inr init_reviewer
          \<and> review w =
              Inr \<lparr> application_name = root_name w,
                    total_issues = 2,
                    issues_by_severity = [(''MEDIUM'', 1), (''LOW'', 1)],
                    issues_by_category = [(''TESTING'', 1), (''DOCUMENTATION'', 1)],
                    issues = [no_tests_dir_issue, missing_readme_issue],
                    summary = ''Found 2 issues, mostly code quality improvements.'',
                    recommendations =
                      [''Improve test coverage'', ''Add missing documentation''] \<rparr>)
     \<and> (root_stat_error w \<longrightarrow>
            discover_files w init_reviewer = Inl OSError \<and> review w = Inl OSError)
     \<and> (stat_raises w \<longrightarrow> review w = Inl OSError)"
proof (intro conjI impI)
  assume quiet: "\<not> stat_raises w"
  then have "\<not> root_stat_error w"
    by (simp add: stat_raises_def)
  then show "discover_files w init_reviewer = Inr init_reviewer"
    using assms by (simp add: discover_files_returns glob_files_def)
  have "run_issues w = [no_tests_dir_issue, missing_readme_issue]"
    using assms quiet by (rule missing_root_issues)
  then show "review w =
      Inr \<lparr> application_name = root_name w,
            total_issues = 2,
            issues_by_severity = [(''MEDIUM'', 1), (''LOW'', 1)],
            issues_by_category = [(''TESTING'', 1), (''DOCUMENTATION'', 1)],
            issues = [no_tests_dir_issue, missing_readme_issue],
            summary = ''Found 2 issues, mostly code quality improvements.'',
            recommendations = [''Improve test coverage'', ''Add missing documentation''] \<rparr>"
    using review_returns [OF quiet] by (simp add: two_issue_result)
next
  assume "root_stat_error w"
  then show "discover_files w init_reviewer = Inl OSError"
    by (rule discover_files_raises)
next
  assume "root_stat_error w"
  then have "stat_raises w"
    by (simp add: stat_raises_def)
  then show "review w = Inl OSError"
    by (rule review_raises)
next
  assume "stat_raises w"
  then show "review w = Inl OSError"
    by (rule review_raises)
qed

text \<open>
  The root path \<^verbatim>\<open>'a' * 256\<close>: nothing exists there, and the system call fails with
  ENAMETOOLONG, which \<^verbatim>\<open>Path.exists\<close> raises.
\<close>

theorem missing_root_review_witness:
  "review ((example_world None)
       \<lparr> root_str := replicate 256 (CHR ''a''), root_name := replicate 256 (CHR ''a''),
         root_stat_error := True \<rparr>) = Inl OSError
   \<and> discover_files ((example_world None)
       \<lparr> root_str := replicate 256 (CHR ''a''), root_name := replicate 256 (CHR ''a''),
         root_stat_error := True \<rparr>) init_reviewer = Inl OSError
   \<and> review (example_world None) =
       Inr \<lparr> application_name = ''app'',
             total_issues = 2,
             issues_by_severity = [(''MEDIUM'', 1), (''LOW'', 1)],
             issues_by_category = [(''TESTING'', 1), (''DOCUMENTATION'', 1)],
             issues = [no_tests_dir_issue, missing_readme_issue],
             summary = ''Found 2 issues, mostly code quality improvements.'',
             recommendations = [''Improve test coverage'', ''Add missing documentation''] \<rparr>"
proof -
  let ?long = "(example_world None)
       \<lparr> root_str := replicate 256 (CHR ''a''), root_name := replicate 256 (CHR ''a''),
         root_stat_error := True \<rparr>"
  have gone: "root ?long = None" and err: "root_stat_error ?long"
    by (simp_all add: example_world_def)
  have gone': "root (example_world None) = None"
    by (simp add: example_world_def)
  have name: "root_name (example_world None) = ''app''"
    by (simp add: example_world_def)
  note raises = missing_root_review [OF gone, THEN conjunct2, THEN conjunct1, THEN mp, OF err]
  note returns = missing_root_review [OF gone', THEN conjunct1, THEN mp, OF example_world_quiet]
  from raises returns show ?thesis
    by (simp only: name)
qed

text \<open>
  C2.  When the root exists and is a directory with nothing in it, and the existence
  tests of the run answer, the run discovers no source file and returns the result
  whose issues are exactly two: the one for the missing tests directory and the one for
  the missing README, in that order.
\<close>

theorem empty_root_review:
  assumes "root w = Some (Dir [])" and "\<not> stat_raises w"
  shows "discover_files w init_reviewer = Inr init_reviewer
     \<and> python_files init_reviewer = []
     \<and> review w =
         Inr \<lparr> application_name = root_name w,
               total_issues = 2,
               issues_by_severity = [(''MEDIUM'', 1), (''LOW'', 1)],
               issues_by_category = [(''TESTING'', 1), (''DOCUMENTATION'', 1)],
               issues = [no_tests_dir_issue, missing_readme_issue],
               summary = ''Found 2 issues, mostly code quality improvements.'',
               recommendations = [''Improve test coverage'', ''Add missing documentation''] \<rparr>"
proof -
  from assms(2) have "\<not> root_stat_error w"
    by (simp add: stat_raises_def)
  then have files: "discover_files w init_reviewer = Inr init_reviewer"
    using assms(1) by (simp add: discover_files_returns glob_files_def init_reviewer_def)
  have "run_issues w = [no_tests_dir_issue, missing_readme_issue]"
    using assms by (rule empty_root_issues)
  then have "review w = Inr (generate_result (root_name w)
      [no_tests_dir_issue, missing_readme_issue])"
    using review_returns [OF assms(2)] by simp
  with files show ?thesis
    by (simp add: two_issue_result init_reviewer_def)
qed

theorem empty_root_review_witness:
  "discover_files (example_world (Some (Dir []))) init_reviewer = Inr init_reviewer
   \<and> review (example_world (Some (Dir []))) =
       Inr \<lparr> application_name = ''app'',
             total_issues = 2,
             issues_by_severity = [(''MEDIUM'', 1), (''LOW'', 1)],
             issues_by_category = [(''TESTING'', 1), (''DOCUMENTATION'', 1)],
             issues = [no_tests_dir_issue, missing_readme_issue],
             summary = ''Found 2 issues, mostly code quality improvements.'',
             recommendations = [''Improve test coverage'', ''Add missing documentation''] \<rparr>"
proof -
  have dir: "root (example_world (Some (Dir []))) = Some (Dir [])"
    by (simp add: example_world_def)
  have name: "root_name (example_world (Some (Dir []))) = ''app''"
    by (simp add: example_world_def)
  from empty_root_review [OF dir example_world_quiet] show ?thesis
    by (simp only: name)
qed

section \<open>The output format\<close>

text \<open>
  C9.  For every format string other than \<open>json\<close> and \<open>markdown\<close> the reporter returns
  the plain-text encoding of the result the run returns; the choice of the encoding has
  no branch that raises, so the call raises only when the run itself does.
\<close>

theorem other_format_is_text:
  assumes "output_format \<noteq> ''json''" and "output_format \<noteq> ''markdown''"
  shows "review_application w output_format =
     (case review w of Inl e \<Rightarrow> Inl e | Inr result \<Rightarrow> Inr (format_text result))"
  using assms by (simp add: review_application_def and_then_def)

theorem other_format_is_text_witness:
  "review_application (example_world None) ''''
     = Inr (format_text (generate_result ''app'' [no_tests_dir_issue, missing_readme_issue]))
   \<and> review_application (example_world None) ''JSON''
     = Inr (format_text (generate_result ''app'' [no_tests_dir_issue, missing_readme_issue]))"
  using other_format_is_text [of "''''" "example_world None"]
    other_format_is_text [of "''JSON''" "example_world None"]
  by (simp add: example_missing_root_review)

section \<open>What each check can append\<close>

lemma filter_concat_key:
  assumes "distinct (map key xs)" and "x \<in> set xs"
    and "\<And>y i. y \<in> set xs \<Longrightarrow> i \<in> set (g y) \<Longrightarrow> f i = key y"
  shows "filter (\<lambda>i. f i = key x \<and> Q i) (concat (map g xs)) = filter Q (g x)"
  using assms
proof (induction xs)
  case Nil
  then show ?case by simp
next
  case (Cons a xs)
  have own: "\<And>i. i \<in> set (g a) \<Longrightarrow> f i = key a"
    using Cons.prems(3) by simp
  have others: "\<And>y i. y \<in> set xs \<Longrightarrow> i \<in> set (g y) \<Longrightarrow> f i = key y"
    using Cons.prems(3) by simp
  show ?case
  proof (cases "a = x")
    case True
    have "key x \<notin> key ` set xs"
      using Cons.prems(1) True by simp
    then have "\<And>y i. y \<in> set xs \<Longrightarrow> i \<in> set (g y) \<Longrightarrow> f i \<noteq> key x"
    proof -
      fix y i
      assume fresh: "key x \<notin> key ` set xs" and y: "y \<in> set xs" and i: "i \<in> set (g y)"
      from y i have "f i = key y" by (rule others)
      moreover from y have "key y \<in> key ` set xs" by (rule imageI)
      with fresh have "key y \<noteq> key x" by metis
      ultimately show "f i \<noteq> key x" by simp
    qed
    then have rest: "filter (\<lambda>i. f i = key x \<and> Q i) (concat (map g xs)) = []"
      by (auto simp: filter_empty_conv)
    have "filter (\<lambda>i. f i = key x \<and> Q i) (g a) = filter Q (g a)"
      using own True by (auto intro: filter_cong)
    with rest True show ?thesis by simp
  next
    case False
    then have mem: "x \<in> set xs"
      using Cons.prems(2) by simp
    have "key a \<notin> key ` set xs"
      using Cons.prems(1) by simp
    moreover from mem have "key x \<in> key ` set xs" by (rule imageI)
    ultimately have "key a \<noteq> key x"
      by metis
    then have "filter (\<lambda>i. f i = key x \<and> Q i) (g a) = []"
      using own by (auto simp: filter_empty_conv)
    moreover have "filter (\<lambda>i. f i = key x \<and> Q i) (concat (map g xs)) = filter Q (g x)"
      using Cons.IH Cons.prems(1) mem others by simp
    ultimately show ?thesis by simp
  qed
qed

lemma filter_per_file_empty:
  assumes "\<And>p i. i \<in> set (body p) \<Longrightarrow> \<not> P i"
  shows "filter P (per_file w body) = []"
  using assms by (auto simp: per_file_def filter_empty_conv)

lemma imports_file_shape:
  "i \<in> set (imports_file w p) \<Longrightarrow>
     category i = ''BUG'' \<and> file_path i = rel_str p
     \<and> description i =
         ''Typo in module name: 'coffe_master' should be 'coffee_master'' @ [CHR 0x27]"
  by (auto simp: imports_file_def split: option.splits if_splits)

lemma hardcoded_paths_file_shape:
  "i \<in> set (hardcoded_paths_file w p) \<Longrightarrow>
     category i = ''BUG'' \<and> file_path i = rel_str p
     \<and> description i = ''Hardcoded absolute path detected''"
  by (auto simp: hardcoded_paths_file_def split: option.splits if_splits)

lemma error_handling_node_shape:
  "i \<in> set (error_handling_node p n) \<Longrightarrow>
     category i = ''CODE_QUALITY'' \<and> file_path i = rel_str p
     \<and> description i = ''Bare except clause detected''"
  by (cases n) (auto simp: bare_except_issue_def split: if_splits)

lemma error_handling_file_shape:
  "i \<in> set (error_handling_file w p) \<Longrightarrow>
     category i = ''CODE_QUALITY'' \<and> file_path i = rel_str p
     \<and> description i = ''Bare except clause detected''"
  by (auto simp: error_handling_file_def split: option.splits dest: error_handling_node_shape)

lemma logging_file_shape:
  "i \<in> set (logging_file w p) \<Longrightarrow>
     category i = ''CODE_QUALITY'' \<and> file_path i = rel_str p
     \<and> description i = ''Print statement found instead of logging''"
  by (auto simp: logging_file_def print_issue_def split: option.splits if_splits)

lemma type_hints_node_shape:
  "i \<in> set (type_hints_node w p n) \<Longrightarrow>
     category i = ''CODE_QUALITY'' \<and> file_path i = rel_str p
     \<and> prefix ''Function '' (description i)"
  by (cases n) (auto split: if_splits)

lemma type_hints_file_shape:
  "i \<in> set (type_hints_file w p) \<Longrightarrow>
     category i = ''CODE_QUALITY'' \<and> file_path i = rel_str p
     \<and> prefix ''Function '' (description i)"
  by (auto simp: type_hints_file_def split: option.splits dest: type_hints_node_shape)

lemma docstrings_node_shape:
  "i \<in> set (docstrings_node w p n) \<Longrightarrow>
     category i = ''DOCUMENTATION'' \<and> file_path i = rel_str p
     \<and> prefix ''Function '' (description i)"
  by (cases n) (auto split: if_splits)

lemma docstrings_file_shape:
  "i \<in> set (docstrings_file w p) \<Longrightarrow>
     category i = ''DOCUMENTATION'' \<and> file_path i = rel_str p
     \<and> (description i = ''Module missing docstring'' \<or> prefix ''Function '' (description i))"
  by (auto simp: docstrings_file_def split: option.splits if_splits
      dest: docstrings_node_shape)

lemma thread_safety_file_shape:
  "i \<in> set (thread_safety_file w p) \<Longrightarrow>
     category i = ''BUG'' \<and> file_path i = rel_str p
     \<and> description i = ''File I/O operations without thread-safety mechanisms''"
  by (auto simp: thread_safety_file_def split: option.splits if_splits)

lemma configuration_file_shape:
  "i \<in> set (configuration_file w p) \<Longrightarrow>
     category i = ''ARCHITECTURE'' \<and> file_path i = rel_str p
     \<and> description i = ''Hardcoded configuration values''"
  by (auto simp: configuration_file_def split: option.splits if_splits)

lemma hailo_issues_shape:
  "i \<in> set (hailo_issues w) \<Longrightarrow>
     category i = ''ARCHITECTURE''
     \<and> (description i = description hailo_missing_issue
        \<or> description i = description hailo_apps_missing_issue)"
  by (auto simp: hailo_issues_def hailo_missing_issue_def hailo_apps_missing_issue_def
      split: if_splits)

section \<open>The testing check\<close>

lemma testing_only_from_test_coverage:
  "filter (\<lambda>i. category i = ''TESTING'') (run_issues w)
     = filter (\<lambda>i. category i = ''TESTING'') (test_coverage_issues w)"
proof -
  have a: "filter (\<lambda>i. category i = ''TESTING'') (per_file w (imports_file w)) = []"
    by (rule filter_per_file_empty) (auto dest: imports_file_shape)
  have b: "filter (\<lambda>i. category i = ''TESTING'') (per_file w (hardcoded_paths_file w)) = []"
    by (rule filter_per_file_empty) (auto dest: hardcoded_paths_file_shape)
  have c: "filter (\<lambda>i. category i = ''TESTING'') (per_file w (error_handling_file w)) = []"
    by (rule filter_per_file_empty) (auto dest: error_handling_file_shape)
  have d: "filter (\<lambda>i. category i = ''TESTING'') (per_file w (logging_file w)) = []"
    by (rule filter_per_file_empty) (auto dest: logging_file_shape)
  have e: "filter (\<lambda>i. category i = ''TESTING'') (per_file w (type_hints_file w)) = []"
    by (rule filter_per_file_empty) (auto dest: type_hints_file_shape)
  have f: "filter (\<lambda>i. category i = ''TESTING'') (per_file w (docstrings_file w)) = []"
    by (rule filter_per_file_empty) (auto dest: docstrings_file_shape)
  have g: "filter (\<lambda>i. category i = ''TESTING'') (per_file w (thread_safety_file w)) = []"
    by (rule filter_per_file_empty) (auto dest: thread_safety_file_shape)
  have h: "filter (\<lambda>i. category i = ''TESTING'') (configuration_issues w) = []"
  proof (cases "child_exists w ''config.yaml'' = Inr False")
    case False
    then show ?thesis by (simp add: configuration_issues_def)
  next
    case True
    have "filter (\<lambda>i. category i = ''TESTING'') (per_file w (configuration_file w)) = []"
      by (rule filter_per_file_empty) (auto dest: configuration_file_shape)
    with True show ?thesis by (simp add: configuration_issues_def)
  qed
  have i: "filter (\<lambda>i. category i = ''TESTING'') (documentation_issues w) = []"
    by (simp add: documentation_issues_def missing_readme_issue_def)
  have j: "filter (\<lambda>i. category i = ''TESTING'') (hailo_issues w) = []"
    by (auto simp: filter_empty_conv dest: hailo_issues_shape)
  show ?thesis
    by (simp add: run_issues_def a b c d e f g h i j)
qed

lemma test_coverage_issues_testing:
  "filter (\<lambda>i. category i = ''TESTING'') (test_coverage_issues w) = test_coverage_issues w"
  by (simp add: test_coverage_issues_def no_tests_dir_issue_def no_test_files_issue_def)

lemma test_files_nonempty:
  assumes "root w = Some (Dir es)" and "map_of es ''tests'' = Some (Dir ts)"
    and "(n, x) \<in> set ts" and "test_pattern n"
  shows "child_exists w ''tests'' \<noteq> Inr False" and "test_files w \<noteq> []"
proof -
  show "child_exists w ''tests'' \<noteq> Inr False"
    using assms(1,2) by (simp add: child_exists_def)
  have "(n, x) \<in> set (filter (\<lambda>e. test_pattern (fst e)) ts)"
    using assms(3,4) by simp
  then have "filter (\<lambda>e. test_pattern (fst e)) ts \<noteq> []"
    by (metis empty_iff empty_set)
  then show "test_files w \<noteq> []"
    using assms(1,2) by (simp add: test_files_def)
qed

text \<open>
  C10.  The TESTING issues of the result a run returns are those of the test-coverage
  check: the no-tests-directory issue when the root has no entry \<open>tests\<close>, else the
  no-test-files issue when globbing \<open>test_*.py\<close> in it finds nothing, else none.  So
  there is at most one; both issues have severity MEDIUM, path \<open>tests/\<close> and no line
  number; and a tests directory with an entry matching \<open>test_*.py\<close> gives no TESTING
  issue.
\<close>

theorem testing_issue_at_most_one:
  assumes "review w = Inr r"
  shows "filter (\<lambda>i. category i = ''TESTING'') (issues r)
     = (if child_exists w ''tests'' = Inr False then [no_tests_dir_issue]
        else if test_files w = [] then [no_test_files_issue]
        else [])
   \<and> length (filter (\<lambda>i. category i = ''TESTING'') (issues r)) \<le> 1
   \<and> severity no_tests_dir_issue = ''MEDIUM'' \<and> file_path no_tests_dir_issue = ''tests/''
   \<and> line_number no_tests_dir_issue = None
   \<and> severity no_test_files_issue = ''MEDIUM'' \<and> file_path no_test_files_issue = ''tests/''
   \<and> line_number no_test_files_issue = None
   \<and> (root w = Some (Dir es) \<and> map_of es ''tests'' = Some (Dir ts)
        \<and> (n, x) \<in> set ts \<and> test_pattern n
      \<longrightarrow> filter (\<lambda>i. category i = ''TESTING'') (issues r) = [])"
proof -
  have eq: "filter (\<lambda>i. category i = ''TESTING'') (issues r) = test_coverage_issues w"
    using assms
    by (simp add: review_issues testing_only_from_test_coverage test_coverage_issues_testing)
  have shape: "test_coverage_issues w =
      (if child_exists w ''tests'' = Inr False then [no_tests_dir_issue]
       else if test_files w = [] then [no_test_files_issue]
       else [])"
    by (simp add: test_coverage_issues_def)
  have le: "length (test_coverage_issues w) \<le> 1"
    by (simp add: test_coverage_issues_def)
  have none: "root w = Some (Dir es) \<and> map_of es ''tests'' = Some (Dir ts)
        \<and> (n, x) \<in> set ts \<and> test_pattern n \<longrightarrow> test_coverage_issues w = []"
    using test_files_nonempty [of w es ts n x] by (simp add: test_coverage_issues_def)
  show ?thesis
    unfolding eq using shape le none
    by (simp add: no_tests_dir_issue_def no_test_files_issue_def)
qed

theorem testing_issue_at_most_one_witness:
  "review (example_world (Some (Dir [(''tests'', Dir [(''test_a.py'', File (Some []))])])))
     = Inr (generate_result ''app'' [missing_readme_issue])
   \<and> filter (\<lambda>i. category i = ''TESTING'')
       (issues (generate_result ''app'' [missing_readme_issue])) = []"
proof -
  let ?tree = "Some (Dir [(''tests'', Dir [(''test_a.py'', File (Some []))])])"
  let ?w = "example_world ?tree"
  have files: "discovered ?w = [[''tests'', ''test_a.py'']]"
    by (simp add: example_world_def discovered_def glob_files_def init_reviewer_def
        full_str_def rel_str_def suffix_to_prefix)
  have rd: "read_file ?w [''tests'', ''test_a.py''] = Some []"
    by (simp add: example_world_def read_file_def)
  have parse: "ast_parse ?w [] = None"
    by (simp add: example_world_def)
  have tests: "child_exists ?w ''tests'' = Inr True"
    and readme: "child_exists ?w ''README.md'' = Inr False"
    and config: "child_exists ?w ''config.yaml'' = Inr False"
    by (simp_all add: example_world_def child_exists_def)
  have found: "test_files ?w = [[''tests'', ''test_a.py'']]"
    by (simp add: example_world_def test_files_def test_pattern_def suffix_to_prefix)
  have "run_issues ?w = [missing_readme_issue]"
    by (simp add: run_issues_def per_file_def files rd parse tests readme config found
        imports_file_def hardcoded_paths_file_def error_handling_file_def logging_file_def
        type_hints_file_def docstrings_file_def thread_safety_file_def
        configuration_file_def configuration_issues_def test_coverage_issues_def
        documentation_issues_def hailo_issues_def enumerate1_def newline_def strip_def)
  then have run: "review ?w = Inr (generate_result ''app'' [missing_readme_issue])"
    using review_returns [OF example_world_quiet, of ?tree]
    by (simp add: example_world_def)
  have hyp: "root ?w = Some (Dir [(''tests'', Dir [(''test_a.py'', File (Some []))])])
      \<and> map_of [(''tests'', Dir [(''test_a.py'', File (Some []))])] ''tests''
          = Some (Dir [(''test_a.py'', File (Some []))])
      \<and> (''test_a.py'', File (Some [])) \<in> set [(''test_a.py'', File (Some []))]
      \<and> test_pattern ''test_a.py''"
    by (simp add: example_world_def test_pattern_def suffix_to_prefix)
  note none = testing_issue_at_most_one
    [OF run, of "[(''tests'', Dir [(''test_a.py'', File (Some []))])]"
      "[(''test_a.py'', File (Some []))]" "''test_a.py''" "File (Some [])",
      THEN conjunct2, THEN conjunct2, THEN conjunct2, THEN conjunct2, THEN conjunct2,
      THEN conjunct2, THEN conjunct2, THEN conjunct2, THEN mp, OF hyp]
  from run none show ?thesis by simp
qed

section \<open>Bare handlers and print statements\<close>

lemma issues_with_description:
  assumes "D = ''Bare except clause detected''
      \<or> D = ''Print statement found instead of logging''"
    and "\<And>i. P i \<Longrightarrow> description i = D"
  shows "filter P (run_issues w)
     = filter P (per_file w (error_handling_file w)) @ filter P (per_file w (logging_file w))"
proof -
  have a: "filter P (per_file w (imports_file w)) = []"
    using assms by (intro filter_per_file_empty) (auto dest!: imports_file_shape)
  have b: "filter P (per_file w (hardcoded_paths_file w)) = []"
    using assms by (intro filter_per_file_empty) (auto dest!: hardcoded_paths_file_shape)
  have e: "filter P (per_file w (type_hints_file w)) = []"
    using assms by (intro filter_per_file_empty) (auto dest!: type_hints_file_shape)
  have f: "filter P (per_file w (docstrings_file w)) = []"
    using assms by (intro filter_per_file_empty) (auto dest!: docstrings_file_shape)
  have g: "filter P (per_file w (thread_safety_file w)) = []"
    using assms by (intro filter_per_file_empty) (auto dest!: thread_safety_file_shape)
  have h: "filter P (configuration_issues w) = []"
  proof (cases "child_exists w ''config.yaml'' = Inr False")
    case False
    then show ?thesis by (simp add: configuration_issues_def)
  next
    case True
    have "filter P (per_file w (configuration_file w)) = []"
      using assms by (intro filter_per_file_empty) (auto dest!: configuration_file_shape)
    with True show ?thesis by (simp add: configuration_issues_def)
  qed
  have t: "filter P (test_coverage_issues w) = []"
    using assms(1)
    by (auto simp: test_coverage_issues_def no_tests_dir_issue_def no_test_files_issue_def
        dest!: assms(2))
  have r: "filter P (documentation_issues w) = []"
    using assms(1)
    by (auto simp: documentation_issues_def missing_readme_issue_def dest!: assms(2))
  have j: "filter P (hailo_issues w) = []"
  proof -
    have "\<not> P i" if "i \<in> set (hailo_issues w)" for i
    proof
      assume "P i"
      then have "description i = D" by (rule assms(2))
      with that assms(1) show False
        by (auto simp: hailo_missing_issue_def hailo_apps_missing_issue_def
            dest!: hailo_issues_shape)
    qed
    then show ?thesis by (auto simp: filter_empty_conv)
  qed
  show ?thesis
    by (simp add: run_issues_def a b e f g h t r j)
qed

lemma error_handling_nodes:
  "concat (map (error_handling_node p) ns)
     = map (bare_except_issue p) (concat (map bare_handler_line ns))"
proof (induction ns)
  case Nil
  show ?case by simp
next
  case (Cons n ns)
  then show ?case by (cases n) simp_all
qed

lemma error_handling_file_parsed:
  assumes "read_file w p = Some content" and "ast_parse w content = Some tree"
  shows "error_handling_file w p = map (bare_except_issue p) (bare_handler_lines tree)"
  using assms by (simp add: error_handling_file_def bare_handler_lines_def error_handling_nodes)

lemma filter_all:
  assumes "\<And>i. i \<in> set xs \<Longrightarrow> P i"
  shows "filter P xs = xs"
  using assms by (induction xs) simp_all

lemma error_handling_file_cases:
  "error_handling_file w p =
     (case read_file w p of
        None \<Rightarrow> []
      | Some content \<Rightarrow>
          (case ast_parse w content of
             None \<Rightarrow> []
           | Some tree \<Rightarrow> map (bare_except_issue p) (bare_handler_lines tree)))"
  by (simp add: error_handling_file_def bare_handler_lines_def error_handling_nodes
      split: option.splits)

text \<open>
  C3, as the code has it.  Let \<open>p\<close> be a discovered source file, no other discovered
  file having its relative path, in a run that returns.  When \<open>p\<close> is read and parsed,
  the bare-except issues the run reports for \<open>p\<close> are exactly one per exception
  handler without a type, in the order of the handlers, each with severity HIGH,
  category CODE_QUALITY and the handler's line, whatever else the file holds.  When
  \<open>p\<close> cannot be read, or its text does not parse, the check passes the file over and
  reports no bare-except issue for it.
\<close>

theorem bare_except_one_per_handler:
  assumes "review w = Inr r"
    and "p \<in> set (discovered w)" and "distinct (map rel_str (discovered w))"
  shows "filter (\<lambda>i. file_path i = rel_str p \<and> description i = ''Bare except clause detected'')
           (issues r)
         = (case read_file w p of
              None \<Rightarrow> []
            | Some content \<Rightarrow>
                (case ast_parse w content of
                   None \<Rightarrow> []
                 | Some tree \<Rightarrow> map (bare_except_issue p) (bare_handler_lines tree)))
     \<and> severity (bare_except_issue p l) = ''HIGH''
     \<and> category (bare_except_issue p l) = ''CODE_QUALITY''
     \<and> line_number (bare_except_issue p l) = Some l"
proof -
  let ?D = "''Bare except clause detected''"
  let ?P = "\<lambda>i. file_path i = rel_str p \<and> description i = ?D"
  have split: "filter ?P (issues r)
      = filter ?P (per_file w (error_handling_file w)) @ filter ?P (per_file w (logging_file w))"
    unfolding review_issues [OF assms(1)] by (rule issues_with_description) simp_all
  have logging: "filter ?P (per_file w (logging_file w)) = []"
    by (rule filter_per_file_empty) (auto dest: logging_file_shape)
  have "filter ?P (per_file w (error_handling_file w))
      = filter (\<lambda>i. description i = ?D) (error_handling_file w p)"
    unfolding per_file_def
    using assms(3,2) by (rule filter_concat_key) (auto dest: error_handling_file_shape)
  also have "\<dots> = error_handling_file w p"
    by (rule filter_all) (auto dest: error_handling_file_shape)
  finally have own: "filter ?P (per_file w (error_handling_file w)) = error_handling_file w p" .
  have main: "filter ?P (issues r) = error_handling_file w p"
    by (simp only: split logging own append_Nil2)
  show ?thesis
    unfolding main by (simp add: error_handling_file_cases bare_except_issue_def)
qed

text \<open>
  A file with two bare handlers among four nodes: the run reports the two issues, at
  lines 3 and 9.
\<close>

theorem bare_except_one_per_handler_witness:
  "review ((example_world (Some (Dir [(''README.md'', File (Some ''read me'')),
        (''tests'', Dir [(''test_a.py'', File (Some ''try:''))])])))
      \<lparr> ast_parse := (\<lambda>s. Some \<lparr> module_docstring = None,
          walk = [ExceptHandler True 3, OtherNode, ExceptHandler False 7,
                  ExceptHandler True 9] \<rparr>) \<rparr>)
     = Inr (generate_result ''app''
         [bare_except_issue [''tests'', ''test_a.py''] 3,
          bare_except_issue [''tests'', ''test_a.py''] 9])
   \<and> filter (\<lambda>i. file_path i = ''tests/test_a.py''
                \<and> description i = ''Bare except clause detected'')
       (issues (generate_result ''app''
         [bare_except_issue [''tests'', ''test_a.py''] 3,
          bare_except_issue [''tests'', ''test_a.py''] 9]))
     = [bare_except_issue [''tests'', ''test_a.py''] 3,
        bare_except_issue [''tests'', ''test_a.py''] 9]"
proof -
  let ?tree = "\<lparr> module_docstring = None,
          walk = [ExceptHandler True 3, OtherNode, ExceptHandler False 7,
                  ExceptHandler True 9] \<rparr>"
  let ?fs = "Some (Dir [(''README.md'', File (Some ''read me'')),
        (''tests'', Dir [(''test_a.py'', File (Some ''try:''))])])"
  let ?w = "(example_world ?fs) \<lparr> ast_parse := (\<lambda>s. Some ?tree) \<rparr>"
  let ?p = "[''tests'', ''test_a.py'']"
  have quiet: "\<not> stat_raises ?w"
    by (simp add: stat_raises_def example_world_def)
  have files: "discovered ?w = [?p]"
    by (simp add: example_world_def discovered_def glob_files_def init_reviewer_def
        full_str_def rel_str_def suffix_to_prefix)
  have rd: "read_file ?w ?p = Some ''try:''"
    by (simp add: example_world_def read_file_def)
  have parse: "ast_parse ?w ''try:'' = Some ?tree"
    by (simp add: example_world_def)
  have test: "is_test ?w ?p"
    by (simp add: example_world_def is_test_def full_str_def rel_str_def lower_def
        lower_char_def)
  have tests: "child_exists ?w ''tests'' = Inr True"
    and readme: "child_exists ?w ''README.md'' = Inr True"
    and config: "child_exists ?w ''config.yaml'' = Inr False"
    by (simp_all add: example_world_def child_exists_def)
  have found: "test_files ?w = [?p]"
    by (simp add: example_world_def test_files_def test_pattern_def suffix_to_prefix)
  have "run_issues ?w = [bare_except_issue ?p 3, bare_except_issue ?p 9]"
    by (simp add: run_issues_def per_file_def files rd parse test tests readme config found
        imports_file_def hardcoded_paths_file_def error_handling_file_def logging_file_def
        type_hints_file_def docstrings_file_def thread_safety_file_def
        configuration_file_def configuration_issues_def test_coverage_issues_def
        documentation_issues_def hailo_issues_def enumerate1_def newline_def strip_def
        is_space_def path_match_here_def is_quote_def)
  then have run: "review ?w = Inr (generate_result ''app''
      [bare_except_issue ?p 3, bare_except_issue ?p 9])"
    using review_returns [OF quiet] by (simp add: example_world_def)
  have mem: "?p \<in> set (discovered ?w)" and dist: "distinct (map rel_str (discovered ?w))"
    by (simp_all add: files)
  from bare_except_one_per_handler [OF run mem dist] run
  show ?thesis
    by (simp add: rd parse rel_str_def bare_handler_lines_def)
qed

text \<open>
  The claim as it is written fails on a file whose text does not parse.  The file
  \<^verbatim>\<open>a.py\<close> below holds a handler without a type on its third line and an unclosed
  parenthesis on its fifth, so \<^verbatim>\<open>ast.parse\<close> raises; the run reports the missing tests
  directory and the missing README, and nothing for the handler.
\<close>

theorem bare_except_unparsed_counterexample:
  "discovered (example_world (Some (Dir [(''a.py'', File (Some
       ''try:\<newline>    pass\<newline>except:\<newline>    pass\<newline>x = (''))]))) = [[''a.py'']]
   \<and> split_on newline
        ''try:\<newline>    pass\<newline>except:\<newline>    pass\<newline>x = ('' ! 2 = ''except:''
   \<and> review (example_world (Some (Dir [(''a.py'', File (Some
       ''try:\<newline>    pass\<newline>except:\<newline>    pass\<newline>x = (''))])))
     = Inr (generate_result ''app'' [no_tests_dir_issue, missing_readme_issue])"
proof -
  let ?text = "''try:\<newline>    pass\<newline>except:\<newline>    pass\<newline>x = (''"
  let ?w = "example_world (Some (Dir [(''a.py'', File (Some ?text))]))"
  have files: "discovered ?w = [[''a.py'']]"
    by (simp add: example_world_def discovered_def glob_files_def init_reviewer_def
        full_str_def rel_str_def suffix_to_prefix)
  have line: "split_on newline ?text ! 2 = ''except:''"
    by (simp add: newline_def)
  have rd: "read_file ?w [''a.py''] = Some ?text"
    by (simp add: example_world_def read_file_def)
  have parse: "ast_parse ?w ?text = None"
    by (simp add: example_world_def)
  have test: "\<not> is_test ?w [''a.py'']"
    by (simp add: example_world_def is_test_def full_str_def rel_str_def lower_def
        lower_char_def)
  have tests: "child_exists ?w ''tests'' = Inr False"
    and readme: "child_exists ?w ''README.md'' = Inr False"
    and config: "child_exists ?w ''config.yaml'' = Inr False"
    by (simp_all add: example_world_def child_exists_def)
  have "run_issues ?w = [no_tests_dir_issue, missing_readme_issue]"
    by (simp add: run_issues_def per_file_def files rd parse test tests readme config
        imports_file_def hardcoded_paths_file_def error_handling_file_def logging_file_def
        type_hints_file_def docstrings_file_def thread_safety_file_def
        configuration_file_def configuration_issues_def test_coverage_issues_def
        documentation_issues_def hailo_issues_def enumerate1_def newline_def strip_def
        is_space_def path_match_here_def is_quote_def closes_def)
  then have "review ?w = Inr (generate_result ''app'' [no_tests_dir_issue, missing_readme_issue])"
    using review_returns [OF example_world_quiet, of "Some (Dir [(''a.py'', File (Some ?text))])"]
    by (simp add: example_world_def)
  with files line show ?thesis by simp
qed

end
